theory Spec2Isabelle
  imports Complex_Main "HOL-Library.Word" "HOL-Library.Multiset"
    "HOL-Library.List_Lexorder" "HOL-Library.Char_ord"
begin

section \<open>Attribute values and the two conversions (aws/dynamodb.go)\<close>

text \<open>
  The SDK's \<^verbatim>\<open>types.AttributeValue\<close> is an interface with one member type per
  DynamoDB data kind, plus \<^verbatim>\<open>UnknownUnionMember\<close> for a kind the SDK does not know.
  A Go map is modelled as an association list: the order of the list stands for the order
  in which \<^verbatim>\<open>range\<close> happens to visit the map, which Go leaves unspecified.
\<close>

datatype AttributeValue =
    MemberS string
  | MemberN string
  | MemberB "8 word list"
  | MemberSS "string list"
  | MemberNS "string list"
  | MemberBS "8 word list list"
  | MemberL "AttributeValue list"
  | MemberM "(string \<times> AttributeValue) list"
  | MemberNULL bool
  | MemberBOOL bool
  | UnknownUnionMember

text \<open>
  What \<^verbatim>\<open>attributeValueToInterface\<close> returns is a Go \<^verbatim>\<open>interface{}\<close>: one
  constructor per dynamic type the function can produce. The type \<open>'f\<close> stands for
  \<^verbatim>\<open>float64\<close>.
\<close>

datatype 'f native =
    GoString string
  | GoInt64 int
  | GoFloat64 'f
  | GoBool bool
  | GoNil
  | GoSlice "'f native list"
  | GoMap "(string \<times> 'f native) list"
  | GoStrings "string list"

subsection \<open>Library functions the code calls\<close>

text \<open>\<^verbatim>\<open>strings.Join(elems, sep)\<close>.\<close>

fun Join :: "string list \<Rightarrow> string \<Rightarrow> string" where
  "Join [] sep = []"
| "Join [x] sep = x"
| "Join (x # y # ys) sep = x @ sep @ Join (y # ys) sep"

text \<open>\<^verbatim>\<open>%d\<close> of a non-negative integer: its decimal digits.\<close>

fun FormatNat :: "nat \<Rightarrow> string" where
  "FormatNat n =
     (if n < 10 then [''0123456789'' ! n]
      else FormatNat (n div 10) @ [''0123456789'' ! (n mod 10)])"

declare FormatNat.simps [simp del]

text \<open>\<^verbatim>\<open>strconv.FormatInt(i, 10)\<close>, also \<^verbatim>\<open>%v\<close> of an \<^verbatim>\<open>int64\<close>.\<close>

definition FormatInt :: "int \<Rightarrow> string" where
  "FormatInt i = (if i < 0 then CHR ''-'' # FormatNat (nat (- i)) else FormatNat (nat i))"

text \<open>\<^verbatim>\<open>%t\<close> of a \<^verbatim>\<open>bool\<close>.\<close>

definition FormatBool :: "bool \<Rightarrow> string" where
  "FormatBool b = (if b then ''true'' else ''false'')"

text \<open>\<^verbatim>\<open>fmt.Sprintf("<binary: %d bytes>", len(b))\<close>.\<close>

definition binaryPlaceholder :: "8 word list \<Rightarrow> string" where
  "binaryPlaceholder b = ''<binary: '' @ FormatNat (length b) @ '' bytes>''"

text \<open>
  \<^verbatim>\<open>strconv.ParseInt(s, 10, 64)\<close>, after the library's documentation: an optional
  sign, then one or more decimal digits and nothing else; a value outside the range of
  \<^verbatim>\<open>int64\<close> is an error. \<open>None\<close> is the call returning a non-nil error.
\<close>

definition isDigit :: "char \<Rightarrow> bool" where
  "isDigit c = (48 \<le> (of_char c :: nat) \<and> (of_char c :: nat) \<le> 57)"

definition digitVal :: "char \<Rightarrow> nat" where
  "digitVal c = of_char c - 48"

fun digitsVal :: "nat \<Rightarrow> string \<Rightarrow> nat" where
  "digitsVal acc [] = acc"
| "digitsVal acc (c # cs) = digitsVal (acc * 10 + digitVal c) cs"

definition ParseUint :: "string \<Rightarrow> nat option" where
  "ParseUint s =
     (if s = [] then None
      else if \<not> list_all isDigit s then None
      else if digitsVal 0 s \<ge> 2 ^ 64 then None
      else Some (digitsVal 0 s))"

definition ParseInt :: "string \<Rightarrow> int option" where
  "ParseInt s =
     (case s of
        [] \<Rightarrow> None
      | c # cs \<Rightarrow>
          (let neg = (c = CHR ''-'');
               body = (if c = CHR ''+'' \<or> c = CHR ''-'' then cs else s)
           in case ParseUint body of
                None \<Rightarrow> None
              | Some un \<Rightarrow>
                  if \<not> neg \<and> un \<ge> 2 ^ 63 then None
                  else if neg \<and> un > 2 ^ 63 then None
                  else Some (if neg then - int un else int un)))"

subsection \<open>attributeValueToInterface\<close>

text \<open>
  \<^verbatim>\<open>strconv.ParseFloat(s, 64)\<close> is the parameter \<open>ParseFloat\<close>: \<open>None\<close> is a non-nil
  error, \<open>Some f\<close> the parsed \<^verbatim>\<open>float64\<close>.
\<close>

fun attributeValueToInterface :: "(string \<Rightarrow> 'f option) \<Rightarrow> AttributeValue \<Rightarrow> 'f native" where
  "attributeValueToInterface ParseFloat (MemberS v) = GoString v"
| "attributeValueToInterface ParseFloat (MemberN v) =
     (case ParseInt v of
        Some i \<Rightarrow> GoInt64 i
      | None \<Rightarrow>
          (case ParseFloat v of
             Some f \<Rightarrow> GoFloat64 f
           | None \<Rightarrow> GoString v))"
| "attributeValueToInterface ParseFloat (MemberBOOL v) = GoBool v"
| "attributeValueToInterface ParseFloat (MemberNULL v) = GoNil"
| "attributeValueToInterface ParseFloat (MemberL vs) =
     GoSlice (map (attributeValueToInterface ParseFloat) vs)"
| "attributeValueToInterface ParseFloat (MemberM kvs) =
     GoMap (map (\<lambda>(k, av). (k, attributeValueToInterface ParseFloat av)) kvs)"
| "attributeValueToInterface ParseFloat (MemberSS vs) = GoStrings vs"
| "attributeValueToInterface ParseFloat (MemberNS vs) = GoStrings vs"
| "attributeValueToInterface ParseFloat (MemberBS bs) = GoStrings (map binaryPlaceholder bs)"
| "attributeValueToInterface ParseFloat (MemberB b) = GoString (binaryPlaceholder b)"
| "attributeValueToInterface ParseFloat UnknownUnionMember = GoString ''unknown''"

subsection \<open>formatAttributeValue\<close>

fun formatAttributeValue :: "AttributeValue \<Rightarrow> string" where
  "formatAttributeValue (MemberS v) = v"
| "formatAttributeValue (MemberN v) = v"
| "formatAttributeValue (MemberB b) = binaryPlaceholder b"
| "formatAttributeValue (MemberSS vs) = ''['' @ Join vs '', '' @ '']''"
| "formatAttributeValue (MemberNS vs) = ''['' @ Join vs '', '' @ '']''"
| "formatAttributeValue (MemberBS bs) = ''['' @ Join (map binaryPlaceholder bs) '', '' @ '']''"
| "formatAttributeValue (MemberL vs) = ''['' @ Join (map formatAttributeValue vs) '', '' @ '']''"
| "formatAttributeValue (MemberM kvs) =
     ''{'' @ Join (map (\<lambda>(k, av). k @ '': '' @ formatAttributeValue av) kvs) '', '' @ ''}''"
| "formatAttributeValue (MemberNULL v) = ''null''"
| "formatAttributeValue (MemberBOOL v) = FormatBool v"
| "formatAttributeValue UnknownUnionMember = ''unknown''"


section \<open>Query and Scan (aws/dynamodb.go)\<close>

text \<open>A non-nil Go \<^verbatim>\<open>error\<close>, with its message. The code makes no error of its own: every
  error it handles was returned by the SDK, by \<^verbatim>\<open>encoding/json\<close> or by \<^verbatim>\<open>os\<close>.\<close>

datatype error = GoError string

text \<open>The fields of \<^verbatim>\<open>dynamodb.QueryInput\<close> and \<^verbatim>\<open>dynamodb.ScanInput\<close> the code sets.\<close>

record QueryInput =
  TableName :: string
  Limit :: "32 word"
  KeyConditionExpression :: string
  ExpressionAttributeNames :: "string \<rightharpoonup> string"
  ExpressionAttributeValues :: "string \<rightharpoonup> AttributeValue"
  ExclusiveStartKey :: "(string \<times> AttributeValue) list option"

record ScanInput =
  scan_TableName :: string
  scan_Limit :: "32 word"
  scan_ExclusiveStartKey :: "(string \<times> AttributeValue) list option"

text \<open>
  What the backend answers to either call: the items of the page and, when there are
  further pages, the key of the last item it evaluated (\<open>None\<close> is Go's \<^verbatim>\<open>nil\<close> map).
\<close>

record BackendOutput =
  out_Items :: "(string \<times> AttributeValue) list list"
  out_LastEvaluatedKey :: "(string \<times> AttributeValue) list option"

text \<open>
  \<^verbatim>\<open>QueryResult\<close>. \<^verbatim>\<open>Items\<close> holds the display strings of
  \<^verbatim>\<open>formatAttributeValue\<close>, \<^verbatim>\<open>RawItems\<close> the native values,
  \<^verbatim>\<open>LastEvaluatedKey\<close> the continuation token. The record is polymorphic in the three
  because the pagination handlers of main.go never look inside them.
\<close>

record ('i, 'r, 'k) QueryResult =
  Items :: "'i list"
  RawItems :: "'r list"
  LastEvaluatedKey :: "'k option"

text \<open>
  An element of \<^verbatim>\<open>Items\<close> is a \<^verbatim>\<open>map[string]interface{}\<close> whose values are all Go
  strings (\<^verbatim>\<open>items[i][k] = formatAttributeValue(v)\<close>); it is modelled at type \<open>string\<close>.
  The continuation token is the same Go type, and there the dynamic type of a value
  decides how it is encoded again, so its values are kept as \<open>'f native\<close>.
\<close>

type_synonym DisplayItem = "(string \<times> string) list"
type_synonym 'f RawItem = "(string \<times> 'f native) list"
type_synonym 'f Token = "(string \<times> 'f native) list"

text \<open>
  The loop over \<^verbatim>\<open>exclusiveStartKey\<close> in \<^verbatim>\<open>Query\<close> and \<^verbatim>\<open>Scan\<close>: a type switch
  with the cases \<^verbatim>\<open>string\<close> and \<^verbatim>\<open>int64\<close> and no default, so a value of any other
  type adds no entry to \<^verbatim>\<open>exclKey\<close>.
\<close>

fun encodeKeyEntry :: "string \<times> 'f native \<Rightarrow> (string \<times> AttributeValue) list" where
  "encodeKeyEntry (k, GoString val) = [(k, MemberS val)]"
| "encodeKeyEntry (k, GoInt64 val) = [(k, MemberN (FormatInt val))]"
| "encodeKeyEntry (k, _) = []"

definition encodeExclusiveStartKey :: "'f Token \<Rightarrow> (string \<times> AttributeValue) list" where
  "encodeExclusiveStartKey key = concat (map encodeKeyEntry key)"

text \<open>
  The \<^verbatim>\<open>switch condition\<close> of \<^verbatim>\<open>Query\<close>: it has no default, so any other operator
  leaves the expression as it was.
\<close>

definition sortKeyExpression :: "string \<Rightarrow> string \<Rightarrow> string" where
  "sortKeyExpression condition expr =
     (if condition = ''='' then ''#pk = :pk AND #sk = :sk''
      else if condition = ''begins_with'' then ''#pk = :pk AND begins_with(#sk, :sk)''
      else if condition = ''<'' then ''#pk = :pk AND #sk < :sk''
      else if condition = ''<='' then ''#pk = :pk AND #sk <= :sk''
      else if condition = ''>'' then ''#pk = :pk AND #sk > :sk''
      else if condition = ''>='' then ''#pk = :pk AND #sk >= :sk''
      else if condition = ''between'' then ''#pk = :pk AND #sk BETWEEN :sk AND :sk2''
      else expr)"

text \<open>The value of \<^verbatim>\<open>input\<close> at the moment \<^verbatim>\<open>Query\<close> calls \<^verbatim>\<open>c.svc.Query\<close>.\<close>

definition queryInput ::
  "string \<Rightarrow> string \<Rightarrow> string \<Rightarrow> string \<Rightarrow> string \<Rightarrow> string \<Rightarrow> 'f Token option \<Rightarrow> QueryInput" where
  "queryInput tableName partitionKey partitionValue sortKey sortValue condition exclusiveStartKey =
     (let input = \<lparr> TableName = tableName,
                     Limit = 15,
                     KeyConditionExpression = ''#pk = :pk'',
                     ExpressionAttributeNames = [''#pk'' \<mapsto> partitionKey],
                     ExpressionAttributeValues = ['':pk'' \<mapsto> MemberS partitionValue],
                     ExclusiveStartKey = None \<rparr>;
          input = (case exclusiveStartKey of
                     None \<Rightarrow> input
                   | Some key \<Rightarrow> input\<lparr> ExclusiveStartKey := Some (encodeExclusiveStartKey key) \<rparr>)
      in if sortKey \<noteq> [] \<and> sortValue \<noteq> [] then
           input\<lparr> KeyConditionExpression := sortKeyExpression condition (KeyConditionExpression input),
                  ExpressionAttributeNames := (ExpressionAttributeNames input)(''#sk'' \<mapsto> sortKey),
                  ExpressionAttributeValues :=
                    (ExpressionAttributeValues input)('':sk'' \<mapsto> MemberS sortValue) \<rparr>
         else input)"

definition scanInput :: "string \<Rightarrow> 'f Token option \<Rightarrow> ScanInput" where
  "scanInput tableName exclusiveStartKey =
     \<lparr> scan_TableName = tableName,
       scan_Limit = 15,
       scan_ExclusiveStartKey = map_option encodeExclusiveStartKey exclusiveStartKey \<rparr>"

text \<open>
  The second half of both functions: the items of the page in their two projections, made
  in one pass, and the continuation token, every value of which is the display string of
  the key attribute.
\<close>

definition convertLastEvaluatedKey :: "(string \<times> AttributeValue) list \<Rightarrow> 'f Token" where
  "convertLastEvaluatedKey key = map (\<lambda>(k, v). (k, GoString (formatAttributeValue v))) key"

definition convertOutput ::
  "(string \<Rightarrow> 'f option) \<Rightarrow> BackendOutput \<Rightarrow> (DisplayItem, 'f RawItem, 'f Token) QueryResult" where
  "convertOutput ParseFloat out =
     \<lparr> Items = map (map (\<lambda>(k, v). (k, formatAttributeValue v))) (out_Items out),
       RawItems = map (map (\<lambda>(k, v). (k, attributeValueToInterface ParseFloat v))) (out_Items out),
       LastEvaluatedKey = map_option convertLastEvaluatedKey (out_LastEvaluatedKey out) \<rparr>"

text \<open>
  \<^verbatim>\<open>Query\<close> and \<^verbatim>\<open>Scan\<close>. The parameter \<open>svc\<close> is the SDK call, the one place where
  a request leaves the process; an error it returns is returned as it is.
\<close>

definition Query ::
  "(string \<Rightarrow> 'f option) \<Rightarrow> (QueryInput \<Rightarrow> error + BackendOutput) \<Rightarrow>
   string \<Rightarrow> string \<Rightarrow> string \<Rightarrow> string \<Rightarrow> string \<Rightarrow> string \<Rightarrow> 'f Token option \<Rightarrow>
   error + (DisplayItem, 'f RawItem, 'f Token) QueryResult" where
  "Query ParseFloat svc tableName partitionKey partitionValue sortKey sortValue condition
     exclusiveStartKey =
     (case svc (queryInput tableName partitionKey partitionValue sortKey sortValue condition
                  exclusiveStartKey) of
        Inl err \<Rightarrow> Inl err
      | Inr out \<Rightarrow> Inr (convertOutput ParseFloat out))"

definition Scan ::
  "(string \<Rightarrow> 'f option) \<Rightarrow> (ScanInput \<Rightarrow> error + BackendOutput) \<Rightarrow>
   string \<Rightarrow> 'f Token option \<Rightarrow> error + (DisplayItem, 'f RawItem, 'f Token) QueryResult" where
  "Scan ParseFloat svc tableName exclusiveStartKey =
     (case svc (scanInput tableName exclusiveStartKey) of
        Inl err \<Rightarrow> Inl err
      | Inr out \<Rightarrow> Inr (convertOutput ParseFloat out))"


section \<open>ListTables (aws/dynamodb.go)\<close>

record TableInfo =
  Name :: string
  Status :: string
  ItemCount :: int
  SizeBytes :: int
  PartitionKey :: string
  SortKey :: string
  SchemaFields :: "string list"

text \<open>
  The SDK's \<^verbatim>\<open>ListTables\<close>: the request names the table after which the listing
  starts and a limit, both \<^verbatim>\<open>nil\<close> in an empty \<^verbatim>\<open>ListTablesInput{}\<close>; the answer
  holds one batch of table names and, when the listing goes on after it, the last name of
  the batch, with which the next request starts.
\<close>

record ListTablesInput =
  ExclusiveStartTableName :: "string option"
  list_Limit :: "32 word option"

record ListTablesOutput =
  TableNames :: "string list"
  LastEvaluatedTableName :: "string option"

text \<open>
  The parts of the SDK's answer to \<^verbatim>\<open>DescribeTable\<close> that \<^verbatim>\<open>getTableInfo\<close> reads. A
  pointer of the SDK is an \<open>option\<close>, \<open>None\<close> for \<^verbatim>\<open>nil\<close>. A global secondary index is
  given by its key schema.
\<close>

record KeySchemaElement =
  AttributeName :: "string option"
  KeyType :: string

record TableDescription =
  TableStatus :: string
  td_ItemCount :: "int option"
  td_TableSizeBytes :: "int option"
  KeySchema :: "KeySchemaElement list"
  GlobalSecondaryIndexes :: "KeySchemaElement list list"

record DescribeTableOutput =
  Table :: "TableDescription option"

text \<open>
  The loop over the table's key schema assigns \<^verbatim>\<open>partitionKey\<close> at every \<^verbatim>\<open>HASH\<close>
  element and \<^verbatim>\<open>sortKey\<close> at every \<^verbatim>\<open>RANGE\<close> element that has a name: the last one
  wins, and the empty string stays when there is none.
\<close>

fun keyOfType :: "string \<Rightarrow> KeySchemaElement list \<Rightarrow> string \<Rightarrow> string" where
  "keyOfType keyType [] current = current"
| "keyOfType keyType (ks # rest) current =
     (case AttributeName ks of
        None \<Rightarrow> keyOfType keyType rest current
      | Some name \<Rightarrow> keyOfType keyType rest (if KeyType ks = keyType then name else current))"

definition schemaNames :: "KeySchemaElement list \<Rightarrow> string list" where
  "schemaNames schema =
     concat (map (\<lambda>ks. case AttributeName ks of None \<Rightarrow> [] | Some name \<Rightarrow> [name]) schema)"

text \<open>
  \<^verbatim>\<open>for f := range schemaFields\<close> over a Go map visits every key once, in an order the
  runtime chooses anew at each loop. \<open>order\<close> is that choice, \<open>keys\<close> the names that were
  put into the map: the keys that \<open>order\<close> names are visited as they stand in it, the
  others after them. Whatever the choice, the result holds each key once, and every
  arrangement of the keys is the result of some choice.
\<close>

definition rangeKeys :: "string list \<Rightarrow> string list \<Rightarrow> string list" where
  "rangeKeys order keys =
     filter (\<lambda>k. k \<in> set keys) (remdups order) @ filter (\<lambda>k. k \<notin> set order) (remdups keys)"

text \<open>
  \<^verbatim>\<open>getTableInfo\<close>. \<open>DescribeTable\<close> is the SDK call for a table name. An error of the
  call is returned. Dereferencing \<^verbatim>\<open>result.Table\<close>, \<^verbatim>\<open>table.ItemCount\<close> or
  \<^verbatim>\<open>table.TableSizeBytes\<close> when it is \<^verbatim>\<open>nil\<close> panics: the outer \<open>None\<close>. The names
  of all key schemas are collected in a Go map used as a set and read back by ranging over
  it, in the order \<open>order\<close> that the runtime chooses in this call.
\<close>

definition getTableInfo ::
  "(string \<Rightarrow> error + DescribeTableOutput) \<Rightarrow> string list \<Rightarrow> string \<Rightarrow>
   (error + TableInfo) option" where
  "getTableInfo DescribeTable order name =
     (case DescribeTable name of
        Inl err \<Rightarrow> Some (Inl err)
      | Inr output \<Rightarrow>
          (case Table output of
             None \<Rightarrow> None
           | Some table \<Rightarrow>
               (case (td_ItemCount table, td_TableSizeBytes table) of
                  (Some itemCount, Some sizeBytes) \<Rightarrow>
                    Some (Inr \<lparr> Name = name,
                                Status = TableStatus table,
                                ItemCount = itemCount,
                                SizeBytes = sizeBytes,
                                PartitionKey = keyOfType ''HASH'' (KeySchema table) [],
                                SortKey = keyOfType ''RANGE'' (KeySchema table) [],
                                SchemaFields =
                                  rangeKeys order
                                    (schemaNames (KeySchema table)
                                     @ concat (map schemaNames
                                                 (GlobalSecondaryIndexes table))) \<rparr>)
                | _ \<Rightarrow> None)))"

text \<open>
  \<^verbatim>\<open>sort.Slice(tables, less)\<close> is the Go library's sort, which is not stable. It is
  modelled by insertion sort with the same \<open>lessFn\<close>; the theorems use only that the result
  is a rearrangement of the input in which no element is \<open>lessFn\<close> than one before it,
  which holds of every correct sort.
\<close>

fun insertBy :: "('a \<Rightarrow> 'a \<Rightarrow> bool) \<Rightarrow> 'a \<Rightarrow> 'a list \<Rightarrow> 'a list" where
  "insertBy lessFn x [] = [x]"
| "insertBy lessFn x (y # ys) = (if lessFn y x then y # insertBy lessFn x ys else x # y # ys)"

definition sortSlice :: "('a \<Rightarrow> 'a \<Rightarrow> bool) \<Rightarrow> 'a list \<Rightarrow> 'a list" where
  "sortSlice lessFn xs = foldr (insertBy lessFn) xs []"

text \<open>
  The loop of \<^verbatim>\<open>ListTables\<close> over the table names: a table whose \<^verbatim>\<open>getTableInfo\<close>
  returns an error is skipped by \<^verbatim>\<open>continue\<close>. \<open>orders i\<close> is the order in which the
  runtime ranges over the map in the call for the \<open>i\<close>-th name.
\<close>

fun describeLoop ::
  "(string \<Rightarrow> error + DescribeTableOutput) \<Rightarrow> (nat \<Rightarrow> string list) \<Rightarrow> string list \<Rightarrow>
   TableInfo list \<Rightarrow> TableInfo list option" where
  "describeLoop DescribeTable orders [] tables = Some tables"
| "describeLoop DescribeTable orders (name # names) tables =
     (case getTableInfo DescribeTable (orders 0) name of
        None \<Rightarrow> None
      | Some (Inl err) \<Rightarrow> describeLoop DescribeTable (\<lambda>i. orders (Suc i)) names tables
      | Some (Inr info) \<Rightarrow>
          describeLoop DescribeTable (\<lambda>i. orders (Suc i)) names (tables @ [info]))"

text \<open>
  \<^verbatim>\<open>ListTables\<close>. \<open>svcListTables\<close> is the SDK's \<^verbatim>\<open>ListTables\<close>. The function calls
  it once, with the empty input; an error is returned; of the answer it reads
  \<^verbatim>\<open>TableNames\<close> and nothing else.
\<close>

definition ListTables ::
  "(ListTablesInput \<Rightarrow> error + ListTablesOutput) \<Rightarrow> (string \<Rightarrow> error + DescribeTableOutput) \<Rightarrow>
   (nat \<Rightarrow> string list) \<Rightarrow> (error + TableInfo list) option" where
  "ListTables svcListTables DescribeTable orders =
     (case svcListTables \<lparr> ExclusiveStartTableName = None, list_Limit = None \<rparr> of
        Inl err \<Rightarrow> Some (Inl err)
      | Inr output \<Rightarrow>
          (case describeLoop DescribeTable orders (TableNames output) [] of
             None \<Rightarrow> None
           | Some tables \<Rightarrow> Some (Inr (sortSlice (\<lambda>a b. ItemCount a > ItemCount b) tables))))"

text \<open>
  Three predicates on the backend's answers, for the statements about \<^verbatim>\<open>ListTables\<close>.
  An answer to \<^verbatim>\<open>DescribeTable\<close> has no \<^verbatim>\<open>nil\<close> where \<^verbatim>\<open>getTableInfo\<close>
  dereferences; a call succeeded; and a \<^verbatim>\<open>TableInfo\<close> is the description that
  \<^verbatim>\<open>DescribeTable\<close> gives of the table of that name.
\<close>

definition noNilFields :: "error + DescribeTableOutput \<Rightarrow> bool" where
  "noNilFields answer =
     (case answer of
        Inl err \<Rightarrow> True
      | Inr output \<Rightarrow>
          (case Table output of
             None \<Rightarrow> False
           | Some table \<Rightarrow> td_ItemCount table \<noteq> None \<and> td_TableSizeBytes table \<noteq> None))"

definition succeeded :: "error + 'a \<Rightarrow> bool" where
  "succeeded answer = (case answer of Inl err \<Rightarrow> False | Inr output \<Rightarrow> True)"

definition describes :: "(string \<Rightarrow> error + DescribeTableOutput) \<Rightarrow> TableInfo \<Rightarrow> bool" where
  "describes DescribeTable info =
     (case DescribeTable (Name info) of
        Inl err \<Rightarrow> False
      | Inr output \<Rightarrow>
          (case Table output of
             None \<Rightarrow> False
           | Some table \<Rightarrow>
               Status info = TableStatus table
             \<and> td_ItemCount table = Some (ItemCount info)
             \<and> td_TableSizeBytes table = Some (SizeBytes info)
             \<and> PartitionKey info = keyOfType ''HASH'' (KeySchema table) []
             \<and> SortKey info = keyOfType ''RANGE'' (KeySchema table) []
             \<and> distinct (SchemaFields info)
             \<and> set (SchemaFields info) =
                 set (schemaNames (KeySchema table)
                      @ concat (map schemaNames (GlobalSecondaryIndexes table)))))"

text \<open>
  A backend with three tables, one of which cannot be described. Its listing comes in two
  batches: the first answer names \<open>users\<close> and \<open>broken\<close> and says that the listing goes on
  after \<open>broken\<close>; the answer to the request starting there names \<open>events\<close>.
\<close>

definition exampleDescribe :: "string \<Rightarrow> error + DescribeTableOutput" where
  "exampleDescribe name =
     (if name = ''users'' then
        Inr \<lparr> Table = Some \<lparr> TableStatus = ''ACTIVE'', td_ItemCount = Some 5,
                             td_TableSizeBytes = Some 100,
                             KeySchema = [\<lparr> AttributeName = Some ''id'', KeyType = ''HASH'' \<rparr>],
                             GlobalSecondaryIndexes = [] \<rparr> \<rparr>
      else if name = ''events'' then
        Inr \<lparr> Table = Some \<lparr> TableStatus = ''ACTIVE'', td_ItemCount = Some 9,
                             td_TableSizeBytes = Some 640,
                             KeySchema = [\<lparr> AttributeName = Some ''id'', KeyType = ''HASH'' \<rparr>,
                                          \<lparr> AttributeName = Some ''ts'', KeyType = ''RANGE'' \<rparr>],
                             GlobalSecondaryIndexes = [] \<rparr> \<rparr>
      else Inl (GoError ''AccessDeniedException''))"

definition exampleListing :: "ListTablesInput \<Rightarrow> error + ListTablesOutput" where
  "exampleListing input =
     (case ExclusiveStartTableName input of
        None \<Rightarrow> Inr \<lparr> TableNames = [''users'', ''broken''],
                      LastEvaluatedTableName = Some ''broken'' \<rparr>
      | Some start \<Rightarrow>
          Inr \<lparr> TableNames = (if start = ''broken'' then [''events''] else []),
                LastEvaluatedTableName = None \<rparr>)"

text \<open>The same backend when its listing comes in one batch.\<close>

definition exampleListingWhole :: "ListTablesInput \<Rightarrow> error + ListTablesOutput" where
  "exampleListingWhole input =
     (case ExclusiveStartTableName input of
        None \<Rightarrow> Inr \<lparr> TableNames = [''users'', ''broken'', ''events''],
                      LastEvaluatedTableName = None \<rparr>
      | Some start \<Rightarrow> Inr \<lparr> TableNames = [], LastEvaluatedTableName = None \<rparr>)"


section \<open>The results view: paging (main.go, createTableActionPage)\<close>

text \<open>
  The results page exists twice in main.go, once after a query and once after a scan. The
  two copies differ in the client they call and in one field: a \<^verbatim>\<open>pageState\<close> of the
  scan path keeps the raw items of a page, one of the query path does not, so that a page
  taken from the history has its raw items on the scan path and \<^verbatim>\<open>nil\<close> on the query
  path. The model has the field in both and leaves it empty on the query path.
\<close>

datatype resultsPath = QueryPath | ScanPath

definition keptRawItems :: "resultsPath \<Rightarrow> 'r list \<Rightarrow> 'r list" where
  "keptRawItems path raws = (case path of QueryPath \<Rightarrow> [] | ScanPath \<Rightarrow> raws)"

text \<open>
  The closure variables that paging reads and writes. \<^verbatim>\<open>result\<close> is the page on
  display. \<open>requests\<close> is not a variable of the program: it records, in order, the token
  of every call of the client the handlers make, so that theorems can count the calls.
\<close>

record ('i, 'r, 'k) pageState =
  items :: "'i list"
  rawItems :: "'r list"
  lastEvaluatedKey :: "'k option"

record ('i, 'r, 'k) resultsView =
  currentPage :: nat
  pageHistory :: "('i, 'r, 'k) pageState list"
  result :: "('i, 'r, 'k) QueryResult"
  requests :: "'k list"

text \<open>The entry made in the history for a fetched page.\<close>

definition toPageState :: "resultsPath \<Rightarrow> ('i, 'r, 'k) QueryResult \<Rightarrow> ('i, 'r, 'k) pageState" where
  "toPageState path r =
     \<lparr> items = Items r, rawItems = keptRawItems path (RawItems r),
       lastEvaluatedKey = LastEvaluatedKey r \<rparr>"

text \<open>The state in which the results page is added, after the first call returned \<open>r\<close>.\<close>

definition openResults :: "resultsPath \<Rightarrow> ('i, 'r, 'k) QueryResult \<Rightarrow> ('i, 'r, 'k) resultsView" where
  "openResults path r =
     \<lparr> currentPage = 1,
       pageHistory = [toPageState path r],
       result = r,
       requests = [] \<rparr>"

text \<open>The \<^verbatim>\<open>QueryResult\<close> the Ctrl+B handler builds from a history entry.\<close>

definition heldPage :: "('i, 'r, 'k) pageState \<Rightarrow> ('i, 'r, 'k) QueryResult" where
  "heldPage prevState =
     \<lparr> Items = items prevState, RawItems = rawItems prevState,
       LastEvaluatedKey = lastEvaluatedKey prevState \<rparr>"

text \<open>
  Ctrl+B. \<^verbatim>\<open>pageHistory[currentPage-1]\<close> panics when the index is out of range: \<open>None\<close>.
\<close>

definition ctrlB :: "('i, 'r, 'k) resultsView \<Rightarrow> ('i, 'r, 'k) resultsView option" where
  "ctrlB s =
     (if currentPage s > 1 then
        (let page = currentPage s - 1 in
         if page - 1 < length (pageHistory s) then
           Some (s\<lparr> currentPage := page, result := heldPage (pageHistory s ! (page - 1)) \<rparr>)
         else None)
      else Some s)"

text \<open>
  Ctrl+N. \<open>client\<close> is \<^verbatim>\<open>client.Query\<close> with the table, the keys and the operator of
  the view, or \<^verbatim>\<open>client.Scan\<close> with the table, as a function of the continuation token
  it is given. The handler runs only when the page on display has a token; it always calls
  the client with that token; on an error it returns with nothing changed; otherwise it
  advances, appends the page to the history when the new page number is beyond it, and
  displays what the client returned.
\<close>

definition ctrlN ::
  "resultsPath \<Rightarrow> ('k \<Rightarrow> error + ('i, 'r, 'k) QueryResult) \<Rightarrow> ('i, 'r, 'k) resultsView \<Rightarrow>
   ('i, 'r, 'k) resultsView" where
  "ctrlN path client s =
     (case LastEvaluatedKey (result s) of
        None \<Rightarrow> s
      | Some key \<Rightarrow>
          (case client key of
             Inl err \<Rightarrow> s\<lparr> requests := requests s @ [key] \<rparr>
           | Inr nextResult \<Rightarrow>
               (let page = currentPage s + 1;
                    history = (if page > length (pageHistory s)
                               then pageHistory s @ [toPageState path nextResult]
                               else pageHistory s)
                in s\<lparr> currentPage := page, pageHistory := history, result := nextResult,
                      requests := requests s @ [key] \<rparr>)))"

datatype keyEvent = KeyCtrlN | KeyCtrlB

fun inputCapture ::
  "resultsPath \<Rightarrow> ('k \<Rightarrow> error + ('i, 'r, 'k) QueryResult) \<Rightarrow> keyEvent \<Rightarrow>
   ('i, 'r, 'k) resultsView \<Rightarrow> ('i, 'r, 'k) resultsView option" where
  "inputCapture path client KeyCtrlB s = ctrlB s"
| "inputCapture path client KeyCtrlN s = Some (ctrlN path client s)"

text \<open>
  A sequence of key presses: the state it ends in and the page on display after each
  press.
\<close>

fun presses ::
  "resultsPath \<Rightarrow> ('k \<Rightarrow> error + ('i, 'r, 'k) QueryResult) \<Rightarrow> keyEvent list \<Rightarrow>
   ('i, 'r, 'k) resultsView \<Rightarrow>
   (('i, 'r, 'k) resultsView \<times> ('i, 'r, 'k) QueryResult list) option" where
  "presses path client [] s = Some (s, [])"
| "presses path client (e # es) s =
     (case inputCapture path client e s of
        None \<Rightarrow> None
      | Some s' \<Rightarrow>
          (case presses path client es s' of
             None \<Rightarrow> None
           | Some (t, shown) \<Rightarrow> Some (t, result s' # shown)))"


text \<open>
  A view over two pages, for the concrete instances below: the first page has the token
  \<open>id = u1\<close>, which the client answers with the second and last page.
\<close>

definition examplePage1 :: "(DisplayItem, real RawItem, real Token) QueryResult" where
  "examplePage1 =
     \<lparr> Items = [[(''id'', ''u1'')]],
       RawItems = [[(''id'', GoString ''u1'')]],
       LastEvaluatedKey = Some [(''id'', GoString ''u1'')] \<rparr>"

definition examplePage2 :: "(DisplayItem, real RawItem, real Token) QueryResult" where
  "examplePage2 =
     \<lparr> Items = [[(''id'', ''u2'')]],
       RawItems = [[(''id'', GoString ''u2'')]],
       LastEvaluatedKey = None \<rparr>"

definition exampleClient ::
  "real Token \<Rightarrow> error + (DisplayItem, real RawItem, real Token) QueryResult" where
  "exampleClient key =
     (if key = [(''id'', GoString ''u1'')] then Inr examplePage2
      else Inl (GoError ''ValidationException''))"


definition exampleClientLater ::
  "real Token \<Rightarrow> error + (DisplayItem, real RawItem, real Token) QueryResult" where
  "exampleClientLater key =
     (if key = [(''id'', GoString ''u1'')]
      then Inr \<lparr> Items = [[(''id'', ''u1b'')]],
                 RawItems = [[(''id'', GoString ''u1b'')]],
                 LastEvaluatedKey = Some [(''id'', GoString ''u1b'')] \<rparr>
      else Inl (GoError ''ValidationException''))"


section \<open>The results view: preview columns (main.go)\<close>

text \<open>
  The detection of \<^verbatim>\<open>additionalFields\<close>, the same code on the query path and on the scan
  path. It looks at the first item of the first page only. The loop over
  \<^verbatim>\<open>candidateFields\<close> appends a field that the item has and that is not a key column, and
  breaks once two are found.
\<close>

definition candidateFields :: "string list" where
  "candidateFields =
     [''title'', ''Title'', ''name'', ''Name'', ''displayName'', ''description'', ''Description'',
      ''email'', ''Email'']"

fun detectLoop ::
  "DisplayItem \<Rightarrow> string \<Rightarrow> string \<Rightarrow> string list \<Rightarrow> string list \<Rightarrow> string list" where
  "detectLoop firstItem partitionKey sortKey [] additionalFields = additionalFields"
| "detectLoop firstItem partitionKey sortKey (field # rest) additionalFields =
     (if map_of firstItem field \<noteq> None then
        (if field \<noteq> partitionKey \<and> field \<noteq> sortKey then
           (let additionalFields = additionalFields @ [field]
            in if length additionalFields \<ge> 2 then additionalFields
               else detectLoop firstItem partitionKey sortKey rest additionalFields)
         else detectLoop firstItem partitionKey sortKey rest additionalFields)
      else detectLoop firstItem partitionKey sortKey rest additionalFields)"

definition detectAdditionalFields :: "TableInfo \<Rightarrow> DisplayItem list \<Rightarrow> string list" where
  "detectAdditionalFields tableInfo resultItems =
     (case resultItems of
        [] \<Rightarrow> []
      | firstItem # _ \<Rightarrow>
          detectLoop firstItem (PartitionKey tableInfo) (SortKey tableInfo) candidateFields [])"

section \<open>The item view: export to a file (main.go, saveItemAsJSON)\<close>

text \<open>
  \<^verbatim>\<open>fmt.Sprintf("%v", v)\<close> for the values a raw item can hold. \<open>FormatFloat\<close> is the
  parameter for \<^verbatim>\<open>%v\<close> of a \<^verbatim>\<open>float64\<close>. A \<^verbatim>\<open>nil\<close> interface prints as
  \<^verbatim>\<open><nil>\<close>, a slice as its elements between brackets separated by a space, a map as
  \<^verbatim>\<open>map[k:v ...]\<close> with the keys in sorted order.
\<close>

fun fmtV :: "('f \<Rightarrow> string) \<Rightarrow> 'f native \<Rightarrow> string" where
  "fmtV FormatFloat (GoString s) = s"
| "fmtV FormatFloat (GoInt64 i) = FormatInt i"
| "fmtV FormatFloat (GoFloat64 f) = FormatFloat f"
| "fmtV FormatFloat (GoBool b) = FormatBool b"
| "fmtV FormatFloat GoNil = ''<nil>''"
| "fmtV FormatFloat (GoSlice vs) = ''['' @ Join (map (fmtV FormatFloat) vs) '' '' @ '']''"
| "fmtV FormatFloat (GoMap kvs) =
     ''map['' @ Join (map (\<lambda>(k, v). k @ '':'' @ fmtV FormatFloat v) (sort_key fst kvs)) '' ''
       @ '']''"
| "fmtV FormatFloat (GoStrings ss) = ''['' @ Join ss '' '' @ '']''"

text \<open>\<^verbatim>\<open>m[key]\<close> on a \<^verbatim>\<open>map[string]interface{}\<close>: a missing key gives \<^verbatim>\<open>nil\<close>.\<close>

definition index :: "(string \<times> 'f native) list \<Rightarrow> string \<Rightarrow> 'f native" where
  "index m key = (case map_of m key of None \<Rightarrow> GoNil | Some v \<Rightarrow> v)"

text \<open>\<^verbatim>\<open>strings.ReplaceAll(s, old, new)\<close> where \<open>old\<close> and \<open>new\<close> are one byte each.\<close>

definition ReplaceAll :: "string \<Rightarrow> char \<Rightarrow> char \<Rightarrow> string" where
  "ReplaceAll s old new = map (\<lambda>c. if c = old then new else c) s"

text \<open>The value of \<^verbatim>\<open>filename\<close> when \<^verbatim>\<open>saveItemAsJSON\<close> marshals the item.\<close>

definition exportFileName :: "('f \<Rightarrow> string) \<Rightarrow> TableInfo \<Rightarrow> 'f RawItem \<Rightarrow> string" where
  "exportFileName FormatFloat tableInfo rawItem =
     (let pkValue = fmtV FormatFloat (index rawItem (PartitionKey tableInfo));
          filename = (if SortKey tableInfo \<noteq> []
                      then pkValue @ ''_'' @ fmtV FormatFloat (index rawItem (SortKey tableInfo))
                      else pkValue);
          filename = ReplaceAll filename (CHR ''/'') (CHR ''_'');
          filename = ReplaceAll filename (CHR '' '') (CHR ''_'');
          filename = ReplaceAll filename (CHR '':'') (CHR ''_'')
      in filename @ ''.json'')"

fun errorText :: "error \<Rightarrow> string" where
  "errorText (GoError msg) = msg"

text \<open>
  What \<^verbatim>\<open>saveItemAsJSON\<close> does: \<open>writeCall\<close> is the file name and the data of its call of
  \<^verbatim>\<open>os.WriteFile\<close>, if it makes one; \<open>modalPage\<close> is the name and the text of the page it
  adds.
\<close>

record saveOutcome =
  writeCall :: "(string \<times> string) option"
  modalPage :: "string \<times> string"

text \<open>
  \<^verbatim>\<open>saveItemAsJSON\<close>. \<open>MarshalIndent\<close> is \<^verbatim>\<open>json.MarshalIndent(v, prefix, indent)\<close> and
  \<open>WriteFile\<close> is \<^verbatim>\<open>os.WriteFile(name, data, 0644)\<close>, \<open>None\<close> for a \<^verbatim>\<open>nil\<close> error: both
  are parameters.
\<close>

definition saveItemAsJSON ::
  "('f \<Rightarrow> string) \<Rightarrow> ('f RawItem \<Rightarrow> string \<Rightarrow> string \<Rightarrow> error + string) \<Rightarrow>
   (string \<Rightarrow> string \<Rightarrow> error option) \<Rightarrow> TableInfo \<Rightarrow> 'f RawItem \<Rightarrow> saveOutcome" where
  "saveItemAsJSON FormatFloat MarshalIndent WriteFile tableInfo rawItem =
     (let filename = exportFileName FormatFloat tableInfo rawItem
      in case MarshalIndent rawItem [] ''    '' of
           Inl err \<Rightarrow>
             \<lparr> writeCall = None,
               modalPage = (''saveerror'', ''Error saving JSON: '' @ errorText err) \<rparr>
         | Inr jsonBytes \<Rightarrow>
             (case WriteFile filename jsonBytes of
                Some err \<Rightarrow>
                  \<lparr> writeCall = Some (filename, jsonBytes),
                    modalPage = (''saveerror'', ''Error writing file: '' @ errorText err) \<rparr>
              | None \<Rightarrow>
                  \<lparr> writeCall = Some (filename, jsonBytes),
                    modalPage = (''savesuccess'', ''Saved to: '' @ filename) \<rparr>))"

text \<open>The characters the file name is cleaned of.\<close>

definition pathHostile :: "char \<Rightarrow> bool" where
  "pathHostile c = (c = CHR ''/'' \<or> c = CHR '' '' \<or> c = CHR '':'')"

text \<open>The table and the item of the export scenario, as the backend returns the item.\<close>

definition exampleTable :: TableInfo where
  "exampleTable =
     \<lparr> Name = ''events'', Status = ''ACTIVE'', ItemCount = 1, SizeBytes = 64,
       PartitionKey = ''id'', SortKey = ''ts'', SchemaFields = [''id'', ''ts''] \<rparr>"

definition exampleItem :: "(string \<times> AttributeValue) list" where
  "exampleItem =
     [(''id'', MemberS ''u1''), (''ts'', MemberS ''2024-01-01''), (''title'', MemberS ''Hello''),
      (''tags'', MemberL [MemberS ''a'', MemberS ''b''])]"

section \<open>The item view: rows and the shared item maps (main.go)\<close>

text \<open>
  A Go map is a reference: \<^verbatim>\<open>item := result.Items[row-1]\<close> is the very map that the
  page on display holds, and a history entry made from that page holds it too. So here the
  elements of \<^verbatim>\<open>Items\<close> and of a history entry are addresses, and the display items live
  in a store, a list indexed by address.

  The rows of \<^verbatim>\<open>itemTable\<close>: the schema fields first, each deleted from the item as it is
  shown, then whatever the item still holds.
\<close>

record itemTable =
  keyRows :: "(string \<times> string) list"
  otherRows :: "(string \<times> string) list"

text \<open>\<^verbatim>\<open>delete(item, sf)\<close>.\<close>

definition deleteKey :: "string \<Rightarrow> DisplayItem \<Rightarrow> DisplayItem" where
  "deleteKey sf item = filter (\<lambda>(k, v). k \<noteq> sf) item"

text \<open>
  The loop over \<^verbatim>\<open>tableInfo.SchemaFields\<close>: the rows it adds and the item it leaves
  behind.
\<close>

fun schemaLoop :: "string list \<Rightarrow> DisplayItem \<Rightarrow> (string \<times> string) list \<times> DisplayItem" where
  "schemaLoop [] item = ([], item)"
| "schemaLoop (sf # rest) item =
     (case map_of item sf of
        None \<Rightarrow> schemaLoop rest item
      | Some v \<Rightarrow>
          (case schemaLoop rest (deleteKey sf item) of
             (shownRows, remaining) \<Rightarrow> ((sf, v) # shownRows, remaining)))"

text \<open>
  Enter on the results table with \<open>row\<close> selected (row 0 is the header): the item table it
  shows, if any, and the store afterwards. \<^verbatim>\<open>result.RawItems[row-1]\<close> panics when the
  page has fewer raw items: \<open>None\<close>. An address outside the store does not occur in the
  program; the model gives \<open>None\<close> for it as well.
\<close>

definition keyEnter ::
  "TableInfo \<Rightarrow> nat \<Rightarrow> DisplayItem list \<Rightarrow> (nat, 'r, 'k) QueryResult \<Rightarrow>
   (itemTable option \<times> DisplayItem list) option" where
  "keyEnter tableInfo row store res =
     (if row > 0 \<and> row \<le> length (Items res) then
        (if row - 1 < length (RawItems res) \<and> Items res ! (row - 1) < length store then
           (let item = Items res ! (row - 1)
            in case schemaLoop (SchemaFields tableInfo) (store ! item) of
                 (shownRows, remaining) \<Rightarrow>
                   Some (Some \<lparr> keyRows = shownRows, otherRows = remaining \<rparr>,
                         store[item := remaining]))
         else None)
      else Some (None, store))"

text \<open>
  \<^verbatim>\<open>client.Query\<close> makes new maps on every call. \<open>fetchInto\<close> is the client as the
  handlers see it when the store is \<open>store\<close>: the items of the page it returns are the
  addresses after the end of the store, and \<open>storeAfterFetch\<close> is the store with the new
  items at those addresses.
\<close>

definition fetchInto ::
  "('k \<Rightarrow> error + (DisplayItem, 'r, 'k) QueryResult) \<Rightarrow> DisplayItem list \<Rightarrow> 'k \<Rightarrow>
   error + (nat, 'r, 'k) QueryResult" where
  "fetchInto client store key =
     (case client key of
        Inl err \<Rightarrow> Inl err
      | Inr r \<Rightarrow>
          Inr \<lparr> Items = [length store ..< length store + length (Items r)],
                RawItems = RawItems r,
                LastEvaluatedKey = LastEvaluatedKey r \<rparr>)"

definition storeAfterFetch ::
  "('k \<Rightarrow> error + (DisplayItem, 'r, 'k) QueryResult) \<Rightarrow> DisplayItem list \<Rightarrow> 'k option \<Rightarrow>
   DisplayItem list" where
  "storeAfterFetch client store tok =
     (case tok of
        None \<Rightarrow> store
      | Some key \<Rightarrow> (case client key of Inl err \<Rightarrow> store | Inr r \<Rightarrow> store @ Items r))"

text \<open>The view and the store when the results page is added for the first page \<open>r\<close>.\<close>

definition storedOpenResults ::
  "resultsPath \<Rightarrow> (DisplayItem, 'r, 'k) QueryResult \<Rightarrow> (nat, 'r, 'k) resultsView \<times> DisplayItem list" where
  "storedOpenResults path r =
     (openResults path \<lparr> Items = [0 ..< length (Items r)], RawItems = RawItems r,
                    LastEvaluatedKey = LastEvaluatedKey r \<rparr>,
      Items r)"

text \<open>
  The key handler of the results page on a view with its store: Ctrl+N and Ctrl+B are the
  handlers above, Enter opens the item view.
\<close>

datatype viewEvent = Press keyEvent | Enter nat

fun storedInputCapture ::
  "resultsPath \<Rightarrow> ('k \<Rightarrow> error + (DisplayItem, 'r, 'k) QueryResult) \<Rightarrow> TableInfo \<Rightarrow> viewEvent \<Rightarrow>
   (nat, 'r, 'k) resultsView \<times> DisplayItem list \<Rightarrow>
   ((nat, 'r, 'k) resultsView \<times> DisplayItem list) option" where
  "storedInputCapture path client tableInfo (Press KeyCtrlN) (s, store) =
     Some (ctrlN path (fetchInto client store) s,
           storeAfterFetch client store (LastEvaluatedKey (result s)))"
| "storedInputCapture path client tableInfo (Press KeyCtrlB) (s, store) =
     (case ctrlB s of None \<Rightarrow> None | Some s' \<Rightarrow> Some (s', store))"
| "storedInputCapture path client tableInfo (Enter row) (s, store) =
     (case keyEnter tableInfo row store (result s) of
        None \<Rightarrow> None
      | Some (shownTable, store') \<Rightarrow> Some (s, store'))"

fun storedPresses ::
  "resultsPath \<Rightarrow> ('k \<Rightarrow> error + (DisplayItem, 'r, 'k) QueryResult) \<Rightarrow> TableInfo \<Rightarrow> viewEvent list \<Rightarrow>
   (nat, 'r, 'k) resultsView \<times> DisplayItem list \<Rightarrow>
   ((nat, 'r, 'k) resultsView \<times> DisplayItem list) option" where
  "storedPresses path client tableInfo [] st = Some st"
| "storedPresses path client tableInfo (e # es) st =
     (case storedInputCapture path client tableInfo e st of
        None \<Rightarrow> None
      | Some st' \<Rightarrow> storedPresses path client tableInfo es st')"

text \<open>
  The items the history holds, page by page, and the items of the page on display, each
  read from the store.
\<close>

definition historyItems ::
  "(nat, 'r, 'k) resultsView \<times> DisplayItem list \<Rightarrow> DisplayItem list list" where
  "historyItems st = map (\<lambda>p. map (\<lambda>a. snd st ! a) (items p)) (pageHistory (fst st))"

definition shownItems :: "(nat, 'r, 'k) resultsView \<times> DisplayItem list \<Rightarrow> DisplayItem list" where
  "shownItems st = map (\<lambda>a. snd st ! a) (Items (result (fst st)))"

text \<open>
  The page on display is the history's own entry for the current page number: its items
  are the same addresses.
\<close>

definition sharesHistory :: "('i, 'r, 'k) resultsView \<Rightarrow> bool" where
  "sharesHistory s =
     (currentPage s - 1 < length (pageHistory s)
      \<and> Items (result s) = items (pageHistory s ! (currentPage s - 1)))"

text \<open>
  What holds of every view of the query path: the page number is within the history, and
  no history entry has raw items.
\<close>

definition queryView :: "('i, 'r, 'k) resultsView \<Rightarrow> bool" where
  "queryView s =
     (1 \<le> currentPage s \<and> currentPage s \<le> length (pageHistory s)
      \<and> list_all (\<lambda>p. rawItems p = []) (pageHistory s))"

section \<open>The codec's contract\<close>

text \<open>
  The models of the decimal functions agree with each other: what \<^verbatim>\<open>FormatInt\<close> prints
  for an \<^verbatim>\<open>int64\<close>, \<^verbatim>\<open>ParseInt\<close> reads back.
\<close>

lemma digit_char:
  assumes "d < 10"
  shows "digitVal (''0123456789'' ! d) = d" and "isDigit (''0123456789'' ! d)"
proof -
  from assms have "d \<in> {0, 1, 2, 3, 4, 5, 6, 7, 8, 9}" by auto
  then show "digitVal (''0123456789'' ! d) = d" and "isDigit (''0123456789'' ! d)"
    by (auto simp: digitVal_def isDigit_def)
qed

lemma digitsVal_append: "digitsVal acc (xs @ [c]) = digitsVal acc xs * 10 + digitVal c"
  by (induction xs arbitrary: acc) simp_all

lemma FormatNat_digits: "list_all isDigit (FormatNat n) \<and> FormatNat n \<noteq> []"
proof (induction n rule: FormatNat.induct)
  case (1 n)
  show ?case
  proof (cases "n < 10")
    case True
    then show ?thesis by (subst (1 2) FormatNat.simps) (simp add: digit_char)
  next
    case False
    with 1 show ?thesis by (subst (1 2) FormatNat.simps) (simp add: digit_char)
  qed
qed

lemma digitsVal_FormatNat: "digitsVal 0 (FormatNat n) = n"
proof (induction n rule: FormatNat.induct)
  case (1 n)
  show ?case
  proof (cases "n < 10")
    case True
    then show ?thesis by (subst FormatNat.simps) (simp add: digit_char)
  next
    case False
    with 1 have "digitsVal 0 (FormatNat (n div 10)) = n div 10" by simp
    with False show ?thesis
      by (subst FormatNat.simps) (simp add: digitsVal_append digit_char)
  qed
qed

lemma ParseUint_FormatNat: "n < 2 ^ 64 \<Longrightarrow> ParseUint (FormatNat n) = Some n"
  using FormatNat_digits [of n] by (simp add: ParseUint_def digitsVal_FormatNat)

lemma FormatNat_no_sign: "hd (FormatNat n) \<noteq> CHR ''+'' \<and> hd (FormatNat n) \<noteq> CHR ''-''"
proof -
  from FormatNat_digits [of n] have "isDigit (hd (FormatNat n))"
    by (cases "FormatNat n") simp_all
  then show ?thesis by (auto simp: isDigit_def)
qed

lemma ParseInt_FormatInt:
  assumes "- (2 ^ 63) \<le> i" and "i < 2 ^ 63"
  shows "ParseInt (FormatInt i) = Some i"
proof (cases "i < 0")
  case True
  let ?n = "nat (- i)"
  from assms True have n: "?n \<le> 2 ^ 63" "?n < 2 ^ 64" by simp_all
  have "ParseInt (CHR ''-'' # FormatNat ?n) = Some (- int ?n)"
    using n by (simp add: ParseInt_def ParseUint_FormatNat)
  with True show ?thesis by (simp add: FormatInt_def)
next
  case False
  let ?n = "nat i"
  from assms False have n: "?n < 2 ^ 63" "?n < 2 ^ 64" by simp_all
  obtain c cs where s: "FormatNat ?n = c # cs"
    using FormatNat_digits [of ?n] by (cases "FormatNat ?n") simp_all
  with FormatNat_no_sign [of ?n] have c: "c \<noteq> CHR ''+''" "c \<noteq> CHR ''-''" by simp_all
  have "ParseUint (c # cs) = Some ?n"
    using ParseUint_FormatNat [OF n(2)] s by simp
  then have "ParseInt (c # cs) = Some (int ?n)"
    using c n(1) by (simp add: ParseInt_def)
  with False s show ?thesis by (simp add: FormatInt_def)
qed

text \<open>
  C5. On a Number attribute \<^verbatim>\<open>attributeValueToInterface\<close> tries the integer parse first,
  then the floating-point parse, and otherwise returns the original text. So \<open>"42"\<close> becomes
  the native integer 42; \<open>"3.14"\<close>, which the integer parse refuses, becomes the float that
  the floating-point parse gives for it; and a text that both parsers refuse, such as
  \<open>"abc"\<close>, comes back unchanged. There is no branch that fails: the function returns a
  value on every input.
\<close>

theorem number_toNative:
  assumes "ParseFloat ''3.14'' = Some f"
    and "ParseFloat ''abc'' = None"
  shows "attributeValueToInterface ParseFloat (MemberN s) =
           (case ParseInt s of
              Some i \<Rightarrow> GoInt64 i
            | None \<Rightarrow> (case ParseFloat s of Some g \<Rightarrow> GoFloat64 g | None \<Rightarrow> GoString s))
         \<and> attributeValueToInterface ParseFloat (MemberN ''42'') = GoInt64 42
         \<and> attributeValueToInterface ParseFloat (MemberN ''3.14'') = GoFloat64 f
         \<and> attributeValueToInterface ParseFloat (MemberN ''abc'') = GoString ''abc''"
proof -
  have int42: "ParseInt ''42'' = Some 42"
    by (simp add: ParseInt_def ParseUint_def isDigit_def digitVal_def)
  have no_int_314: "ParseInt ''3.14'' = None"
    by (simp add: ParseInt_def ParseUint_def isDigit_def)
  have no_int_abc: "ParseInt ''abc'' = None"
    by (simp add: ParseInt_def ParseUint_def isDigit_def)
  show ?thesis
    using assms by (simp add: int42 no_int_314 no_int_abc)
qed

theorem number_toNative_witness:
  "(\<lambda>s. if s = ''3.14'' then Some (3.14 :: real) else None) ''3.14'' = Some 3.14
   \<and> (\<lambda>s. if s = ''3.14'' then Some (3.14 :: real) else None) ''abc'' = None
   \<and> attributeValueToInterface (\<lambda>s. if s = ''3.14'' then Some (3.14 :: real) else None)
         (MemberN ''42'') = GoInt64 42
   \<and> attributeValueToInterface (\<lambda>s. if s = ''3.14'' then Some (3.14 :: real) else None)
         (MemberN ''3.14'') = GoFloat64 3.14
   \<and> attributeValueToInterface (\<lambda>s. if s = ''3.14'' then Some (3.14 :: real) else None)
         (MemberN ''abc'') = GoString ''abc''"
proof -
  let ?pf = "\<lambda>s. if s = ''3.14'' then Some (3.14 :: real) else None"
  have h1: "?pf ''3.14'' = Some 3.14" by simp
  have h2: "?pf ''abc'' = None" by simp
  from number_toNative [of ?pf "3.14", OF h1 h2] h1 h2 show ?thesis
    by blast
qed

text \<open>
  C6. \<^verbatim>\<open>formatAttributeValue\<close> returns a string for every attribute value. String and
  Number render as their text and Boolean as \<open>true\<close> or \<open>false\<close>; Binary renders as
  \<open><binary: N bytes>\<close> with N the number of bytes; Null renders as \<open>null\<close>; a List renders
  its members recursively between \<open>[\<close> and \<open>]\<close> and a Map its entries as \<open>k: v\<close> between
  \<open>{\<close> and \<open>}\<close>, both joined by a comma and a space; the three set kinds render their
  members between brackets, joined the same way; any other variant renders as \<open>unknown\<close>.
  The last line is a nested value rendered in full.
\<close>

theorem formatAttributeValue_cases:
  "formatAttributeValue (MemberS s) = s
   \<and> formatAttributeValue (MemberN s) = s
   \<and> formatAttributeValue (MemberBOOL True) = ''true''
   \<and> formatAttributeValue (MemberBOOL False) = ''false''
   \<and> formatAttributeValue (MemberB b) = ''<binary: '' @ FormatNat (length b) @ '' bytes>''
   \<and> formatAttributeValue (MemberNULL n) = ''null''
   \<and> formatAttributeValue (MemberL vs) =
         ''['' @ Join (map formatAttributeValue vs) '', '' @ '']''
   \<and> formatAttributeValue (MemberM kvs) =
         ''{'' @ Join (map (\<lambda>(k, v). k @ '': '' @ formatAttributeValue v) kvs) '', '' @ ''}''
   \<and> formatAttributeValue (MemberSS ss) = ''['' @ Join ss '', '' @ '']''
   \<and> formatAttributeValue (MemberNS ss) = ''['' @ Join ss '', '' @ '']''
   \<and> formatAttributeValue (MemberBS bs) =
         ''['' @ Join (map (\<lambda>b. ''<binary: '' @ FormatNat (length b) @ '' bytes>'') bs) '', ''
           @ '']''
   \<and> formatAttributeValue UnknownUnionMember = ''unknown''
   \<and> formatAttributeValue
         (MemberL [MemberS ''a'', MemberN ''1'',
                   MemberM [(''k'', MemberBOOL True), (''z'', MemberNULL True)],
                   MemberB [1, 2, 3], MemberSS [''x'', ''y'']]) =
       ''[a, 1, {k: true, z: null}, <binary: 3 bytes>, [x, y]]''"
proof -
  have bs: "map binaryPlaceholder bs =
      map (\<lambda>b. ''<binary: '' @ FormatNat (length b) @ '' bytes>'') bs"
    by (simp add: binaryPlaceholder_def)
  have nested: "formatAttributeValue
         (MemberL [MemberS ''a'', MemberN ''1'',
                   MemberM [(''k'', MemberBOOL True), (''z'', MemberNULL True)],
                   MemberB [1, 2, 3], MemberSS [''x'', ''y'']]) =
       ''[a, 1, {k: true, z: null}, <binary: 3 bytes>, [x, y]]''"
    by (simp add: FormatBool_def binaryPlaceholder_def FormatNat.simps)
  have cases: "formatAttributeValue (MemberS s) = s
   \<and> formatAttributeValue (MemberN s) = s
   \<and> formatAttributeValue (MemberBOOL True) = ''true''
   \<and> formatAttributeValue (MemberBOOL False) = ''false''
   \<and> formatAttributeValue (MemberB b) = ''<binary: '' @ FormatNat (length b) @ '' bytes>''
   \<and> formatAttributeValue (MemberNULL n) = ''null''
   \<and> formatAttributeValue (MemberL vs) =
         ''['' @ Join (map formatAttributeValue vs) '', '' @ '']''
   \<and> formatAttributeValue (MemberM kvs) =
         ''{'' @ Join (map (\<lambda>(k, v). k @ '': '' @ formatAttributeValue v) kvs) '', '' @ ''}''
   \<and> formatAttributeValue (MemberSS ss) = ''['' @ Join ss '', '' @ '']''
   \<and> formatAttributeValue (MemberNS ss) = ''['' @ Join ss '', '' @ '']''
   \<and> formatAttributeValue (MemberBS bs) =
         ''['' @ Join (map (\<lambda>b. ''<binary: '' @ FormatNat (length b) @ '' bytes>'') bs) '', ''
           @ '']''
   \<and> formatAttributeValue UnknownUnionMember = ''unknown''"
    by (simp add: FormatBool_def binaryPlaceholder_def bs del: append.simps)
  from cases nested show ?thesis
    by (simp only: simp_thms)
qed


section \<open>Query and Scan: the key condition and the continuation token\<close>

lemma Query_calls_backend:
  "Query ParseFloat svc tableName partitionKey partitionValue sortKey sortValue condition key =
     (case svc (queryInput tableName partitionKey partitionValue sortKey sortValue condition key) of
        Inl err \<Rightarrow> Inl err
      | Inr out \<Rightarrow> Inr (convertOutput ParseFloat out))"
  by (simp add: Query_def)

lemma between_input:
  assumes "sortKey \<noteq> []" and "sortValue \<noteq> []"
  shows "KeyConditionExpression
           (queryInput tableName partitionKey partitionValue sortKey sortValue ''between'' key) =
           ''#pk = :pk AND #sk BETWEEN :sk AND :sk2''"
    and "dom (ExpressionAttributeValues
           (queryInput tableName partitionKey partitionValue sortKey sortValue ''between'' key)) =
           {'':pk'', '':sk''}"
  using assms by (cases key; auto simp: queryInput_def sortKeyExpression_def split: if_splits)+

text \<open>
  C1. The specification asks for a configuration error before any request when the operator is
  \<open>between\<close> and one sort-key value is given. The code has no such check: for the table
  \<open>orders\<close> with the keys \<open>id\<close> and \<open>ts\<close>, the request it builds has a key condition that
  names \<open>:sk2\<close>, binds no value to \<open>:sk2\<close>, and goes to the backend, whose answer is what
  \<^verbatim>\<open>Query\<close> returns.
\<close>

theorem between_single_value_reaches_backend:
  "KeyConditionExpression
     (queryInput ''orders'' ''id'' ''u1'' ''ts'' ''2024-01-01'' ''between'' None) =
     ''#pk = :pk AND #sk BETWEEN :sk AND :sk2''
   \<and> ExpressionAttributeValues
       (queryInput ''orders'' ''id'' ''u1'' ''ts'' ''2024-01-01'' ''between'' None) '':sk2'' = None
   \<and> ExpressionAttributeValues
       (queryInput ''orders'' ''id'' ''u1'' ''ts'' ''2024-01-01'' ''between'' None) '':sk'' =
       Some (MemberS ''2024-01-01'')
   \<and> Query ParseFloat svc ''orders'' ''id'' ''u1'' ''ts'' ''2024-01-01'' ''between'' None =
       (case svc (queryInput ''orders'' ''id'' ''u1'' ''ts'' ''2024-01-01'' ''between'' None) of
          Inl err \<Rightarrow> Inl err
        | Inr out \<Rightarrow> Inr (convertOutput ParseFloat out))"
  by (simp add: queryInput_def sortKeyExpression_def Query_def)

text \<open>
  What becomes of a continuation token on its way through the client: every key attribute
  comes back as a String attribute holding the display text of the original. The
  \<^verbatim>\<open>int64\<close> case of the encoding loop is never taken for a token the client made.
\<close>

lemma token_through_client:
  "encodeExclusiveStartKey (convertLastEvaluatedKey key :: 'f Token) =
     map (\<lambda>(k, v). (k, MemberS (formatAttributeValue v))) key"
  by (induction key) (auto simp: encodeExclusiveStartKey_def convertLastEvaluatedKey_def)

lemma string_token_through_client:
  assumes "list_all (\<lambda>(k, v). \<exists>s. v = MemberS s) key"
  shows "encodeExclusiveStartKey (convertLastEvaluatedKey key :: 'f Token) = key"
  using assms by (induction key) (auto simp: token_through_client)

text \<open>
  Had the token been converted by \<^verbatim>\<open>attributeValueToInterface\<close>, as the \<^verbatim>\<open>int64\<close>
  case of the encoding loop expects, an integer key would have kept its type.
\<close>

lemma integer_key_through_native:
  assumes "- (2 ^ 63) \<le> i" and "i < 2 ^ 63"
  shows "encodeKeyEntry (k, attributeValueToInterface ParseFloat (MemberN (FormatInt i))) =
           [(k, MemberN (FormatInt i))]"
  using ParseInt_FormatInt [OF assms] by simp

text \<open>
  C3. The specification asks that a continuation token given to the next call arrives at the
  backend with every key attribute in its original type and value. For a table whose
  partition key \<open>id\<close> is a Number this fails: the backend's token \<open>id = N 42\<close> is kept by
  the client as the Go string \<open>42\<close>, and both \<^verbatim>\<open>Scan\<close> and \<^verbatim>\<open>Query\<close> send it back as
  the String attribute \<open>S 42\<close>.
\<close>

theorem numeric_token_comes_back_as_string:
  "LastEvaluatedKey
     (convertOutput ParseFloat
        \<lparr> out_Items = [], out_LastEvaluatedKey = Some [(''id'', MemberN ''42'')] \<rparr>) =
     Some [(''id'', GoString ''42'')]
   \<and> scan_ExclusiveStartKey (scanInput ''orders'' (Some [(''id'', GoString ''42'')])) =
       Some [(''id'', MemberS ''42'')]
   \<and> ExclusiveStartKey
       (queryInput ''orders'' ''id'' ''7'' [] [] [] (Some [(''id'', GoString ''42'')])) =
       Some [(''id'', MemberS ''42'')]"
  by (simp add: convertOutput_def convertLastEvaluatedKey_def scanInput_def queryInput_def
      encodeExclusiveStartKey_def)

section \<open>ListTables: one batch of names, partial results, sorted\<close>

lemma mset_insertBy: "mset (insertBy lessFn x ys) = add_mset x (mset ys)"
  by (induction ys) simp_all

lemma mset_sortSlice: "mset (sortSlice lessFn xs) = mset xs"
  by (induction xs) (simp_all add: sortSlice_def mset_insertBy)

lemma set_insertBy: "set (insertBy lessFn x ys) = insert x (set ys)"
  by (induction ys) auto

lemma sorted_insertBy:
  fixes f :: "'a \<Rightarrow> int"
  assumes "sorted_wrt (\<lambda>a b. f a \<ge> f b) ys"
  shows "sorted_wrt (\<lambda>a b. f a \<ge> f b) (insertBy (\<lambda>a b. f a > f b) x ys)"
  using assms by (induction ys) (auto simp: set_insertBy)

lemma sorted_sortSlice:
  fixes f :: "'a \<Rightarrow> int"
  shows "sorted_wrt (\<lambda>a b. f a \<ge> f b) (sortSlice (\<lambda>a b. f a > f b) xs)"
proof (induction xs)
  case Nil
  show ?case by (simp add: sortSlice_def)
next
  case (Cons x xs)
  have "sortSlice (\<lambda>a b. f a > f b) (x # xs) = insertBy (\<lambda>a b. f a > f b) x (sortSlice (\<lambda>a b. f a > f b) xs)"
    by (simp add: sortSlice_def)
  with Cons sorted_insertBy [of f] show ?case by simp
qed

text \<open>
  Ranging over the map: whatever order the runtime chooses, the slice holds each key once;
  and each arrangement of the keys is what some choice gives.
\<close>

lemma set_rangeKeys: "set (rangeKeys order keys) = set keys"
  by (auto simp: rangeKeys_def)

lemma distinct_rangeKeys: "distinct (rangeKeys order keys)"
  by (auto simp: rangeKeys_def)

lemma rangeKeys_any_order:
  assumes "distinct p" "set p = set keys"
  shows "rangeKeys p keys = p"
  using assms by (simp add: rangeKeys_def distinct_remdups_id)

lemma rangeKeys_single: "rangeKeys order [k] = [k]"
proof -
  let ?visited = "rangeKeys order [k]"
  have d: "distinct ?visited" and s: "set ?visited = {k}"
    by (simp_all add: distinct_rangeKeys set_rangeKeys)
  from distinct_card [OF d] s have "length ?visited = 1"
    by simp
  then obtain x where x: "?visited = [x]"
    by (cases ?visited) auto
  with s show ?thesis
    by simp
qed

text \<open>
  \<^verbatim>\<open>getTableInfo\<close> against the answer of \<^verbatim>\<open>DescribeTable\<close>: an error of the call is
  the error returned, and an answer is turned into the \<^verbatim>\<open>TableInfo\<close> of that name.
\<close>

lemma getTableInfo_failed:
  "DescribeTable name = Inl err \<Longrightarrow> getTableInfo DescribeTable order name = Some (Inl err)"
  by (simp add: getTableInfo_def)

lemma getTableInfo_described:
  assumes "DescribeTable name = Inr desc" "noNilFields (DescribeTable name)"
  shows "\<exists>table itemCount sizeBytes.
           desc = \<lparr> Table = Some table \<rparr>
         \<and> td_ItemCount table = Some itemCount \<and> td_TableSizeBytes table = Some sizeBytes
         \<and> getTableInfo DescribeTable order name =
             Some (Inr \<lparr> Name = name, Status = TableStatus table, ItemCount = itemCount,
                         SizeBytes = sizeBytes,
                         PartitionKey = keyOfType ''HASH'' (KeySchema table) [],
                         SortKey = keyOfType ''RANGE'' (KeySchema table) [],
                         SchemaFields =
                           rangeKeys order
                             (schemaNames (KeySchema table)
                              @ concat (map schemaNames (GlobalSecondaryIndexes table))) \<rparr>)"
  using assms by (cases desc) (auto simp: getTableInfo_def noNilFields_def split: option.splits)

lemma describeLoop_result:
  assumes "list_all (\<lambda>name. noNilFields (DescribeTable name)) names"
  shows "\<exists>new. describeLoop DescribeTable orders names tables = Some (tables @ new)
           \<and> map Name new = filter (\<lambda>name. succeeded (DescribeTable name)) names
           \<and> list_all (describes DescribeTable) new"
  using assms
proof (induction names arbitrary: tables orders)
  case Nil
  then show ?case by simp
next
  case (Cons name names)
  from Cons.prems have rest: "list_all (\<lambda>name. noNilFields (DescribeTable name)) names"
    and here: "noNilFields (DescribeTable name)"
    by simp_all
  show ?case
  proof (cases "DescribeTable name")
    case (Inl err)
    from Cons.IH [OF rest, of "\<lambda>i. orders (Suc i)" tables] obtain new where
      "describeLoop DescribeTable (\<lambda>i. orders (Suc i)) names tables = Some (tables @ new)"
      "map Name new = filter (\<lambda>name. succeeded (DescribeTable name)) names"
      "list_all (describes DescribeTable) new"
      by blast
    with Inl show ?thesis
      by (simp add: getTableInfo_failed succeeded_def)
  next
    case (Inr desc)
    from getTableInfo_described
      [where DescribeTable = DescribeTable and name = name and order = "orders 0", OF Inr here]
    obtain table itemCount sizeBytes where
      d: "desc = \<lparr> Table = Some table \<rparr>"
        "td_ItemCount table = Some itemCount" "td_TableSizeBytes table = Some sizeBytes"
      and info: "getTableInfo DescribeTable (orders 0) name =
             Some (Inr \<lparr> Name = name, Status = TableStatus table, ItemCount = itemCount,
                         SizeBytes = sizeBytes,
                         PartitionKey = keyOfType ''HASH'' (KeySchema table) [],
                         SortKey = keyOfType ''RANGE'' (KeySchema table) [],
                         SchemaFields =
                           rangeKeys (orders 0)
                             (schemaNames (KeySchema table)
                              @ concat (map schemaNames (GlobalSecondaryIndexes table))) \<rparr>)"
      by blast
    let ?info = "\<lparr> Name = name, Status = TableStatus table, ItemCount = itemCount,
                         SizeBytes = sizeBytes,
                         PartitionKey = keyOfType ''HASH'' (KeySchema table) [],
                         SortKey = keyOfType ''RANGE'' (KeySchema table) [],
                         SchemaFields =
                           rangeKeys (orders 0)
                             (schemaNames (KeySchema table)
                              @ concat (map schemaNames (GlobalSecondaryIndexes table))) \<rparr>"
    have ok: "describes DescribeTable ?info"
      using Inr d by (simp add: describes_def distinct_rangeKeys set_rangeKeys)
    from Cons.IH [OF rest, of "\<lambda>i. orders (Suc i)" "tables @ [?info]"] obtain new where
      new: "describeLoop DescribeTable (\<lambda>i. orders (Suc i)) names (tables @ [?info]) =
          Some ((tables @ [?info]) @ new)"
      "map Name new = filter (\<lambda>name. succeeded (DescribeTable name)) names"
      "list_all (describes DescribeTable) new"
      by blast
    have "describeLoop DescribeTable orders (name # names) tables = Some (tables @ (?info # new))"
      using info new(1) by simp
    moreover have "map Name (?info # new) =
        filter (\<lambda>name. succeeded (DescribeTable name)) (name # names)"
      using new(2) Inr by (simp add: succeeded_def)
    moreover have "list_all (describes DescribeTable) (?info # new)"
      using ok new(3) by simp
    ultimately show ?thesis by blast
  qed
qed

text \<open>
  What \<^verbatim>\<open>ListTables\<close> does with the names of the one answer it reads. Every name of
  \<^verbatim>\<open>TableNames\<close> is described; the names of the result are the names whose
  \<^verbatim>\<open>DescribeTable\<close> call succeeded, each as often as it is listed, so that a table whose
  call fails is left out and the others are still returned; each entry of the result is
  what \<^verbatim>\<open>DescribeTable\<close> answers for its name; and the result is in descending order of
  item count. (The hypothesis \<open>answers\<close> says that no answer makes \<^verbatim>\<open>getTableInfo\<close>
  dereference \<^verbatim>\<open>nil\<close>.) An error of the listing call is returned as it is.
\<close>

lemma ListTables_partial_and_sorted:
  assumes listing: "svcListTables \<lparr> ExclusiveStartTableName = None, list_Limit = None \<rparr> = Inr listed"
    and answers: "list_all (\<lambda>name. noNilFields (DescribeTable name)) (TableNames listed)"
  shows "\<exists>tables. ListTables svcListTables DescribeTable orders = Some (Inr tables)
           \<and> mset (map Name tables) =
               mset (filter (\<lambda>name. succeeded (DescribeTable name)) (TableNames listed))
           \<and> list_all (describes DescribeTable) tables
           \<and> sorted_wrt (\<lambda>a b. ItemCount a \<ge> ItemCount b) tables"
proof -
  from describeLoop_result [OF answers, of orders "[]"] obtain new where
    new: "describeLoop DescribeTable orders (TableNames listed) [] = Some new"
      "map Name new = filter (\<lambda>name. succeeded (DescribeTable name)) (TableNames listed)"
      "list_all (describes DescribeTable) new"
    by auto
  let ?tables = "sortSlice (\<lambda>a b. ItemCount a > ItemCount b) new"
  have run: "ListTables svcListTables DescribeTable orders = Some (Inr ?tables)"
    using listing new(1) by (simp add: ListTables_def)
  have perm: "mset ?tables = mset new"
    by (rule mset_sortSlice)
  have names: "mset (map Name ?tables) =
      mset (filter (\<lambda>name. succeeded (DescribeTable name)) (TableNames listed))"
    using perm new(2) by (metis mset_map)
  have "set ?tables = set new"
    using perm by (metis set_mset_mset)
  with new(3) have all: "list_all (describes DescribeTable) ?tables"
    by (simp add: list_all_iff)
  have ordered: "sorted_wrt (\<lambda>a b. ItemCount a \<ge> ItemCount b) ?tables"
    by (rule sorted_sortSlice)
  from run names all ordered show ?thesis by blast
qed

lemma ListTables_listing_error:
  "svcListTables \<lparr> ExclusiveStartTableName = None, list_Limit = None \<rparr> = Inl err \<Longrightarrow>
   ListTables svcListTables DescribeTable orders = Some (Inl err)"
  by (simp add: ListTables_def)

text \<open>
  The result depends on the listing through its first answer's \<^verbatim>\<open>TableNames\<close> alone:
  whether the listing goes on after that answer, and with which names, changes nothing.
\<close>

lemma ListTables_first_answer_only:
  assumes "svcListTables \<lparr> ExclusiveStartTableName = None, list_Limit = None \<rparr> = Inr listed"
    and "otherListing \<lparr> ExclusiveStartTableName = None, list_Limit = None \<rparr> = Inr listed'"
    and "TableNames listed' = TableNames listed"
  shows "ListTables otherListing DescribeTable orders = ListTables svcListTables DescribeTable orders"
  using assms by (simp add: ListTables_def)

text \<open>
  So a table that the backend names only in a later answer of the listing is not in the
  result, whatever its description.
\<close>

lemma ListTables_misses_later_batches:
  assumes listing: "svcListTables \<lparr> ExclusiveStartTableName = None, list_Limit = None \<rparr> = Inr listed"
    and answers: "list_all (\<lambda>name. noNilFields (DescribeTable name)) (TableNames listed)"
    and later: "svcListTables \<lparr> ExclusiveStartTableName = LastEvaluatedTableName listed,
                                list_Limit = None \<rparr> = Inr continued"
    and name: "name \<in> set (TableNames continued)" "name \<notin> set (TableNames listed)"
  shows "\<exists>tables. ListTables svcListTables DescribeTable orders = Some (Inr tables)
           \<and> name \<notin> set (map Name tables)"
proof -
  from ListTables_partial_and_sorted
    [where svcListTables = svcListTables and listed = listed and DescribeTable = DescribeTable
       and orders = orders, OF listing answers]
  obtain tables where
    run: "ListTables svcListTables DescribeTable orders = Some (Inr tables)"
    and names: "mset (map Name tables) =
               mset (filter (\<lambda>name. succeeded (DescribeTable name)) (TableNames listed))"
    by blast
  from names have "set (map Name tables) =
      set (filter (\<lambda>name. succeeded (DescribeTable name)) (TableNames listed))"
    by (metis set_mset_mset)
  with name(2) have "name \<notin> set (map Name tables)"
    by simp
  with run show ?thesis
    by blast
qed

lemma exampleDescribe_info:
  "getTableInfo exampleDescribe order ''users'' =
     Some (Inr \<lparr> Name = ''users'', Status = ''ACTIVE'', ItemCount = 5, SizeBytes = 100,
                 PartitionKey = ''id'', SortKey = [], SchemaFields = [''id''] \<rparr>)"
  "getTableInfo exampleDescribe order ''broken'' = Some (Inl (GoError ''AccessDeniedException''))"
  by (simp_all add: getTableInfo_def exampleDescribe_def schemaNames_def rangeKeys_single)

lemma exampleDescribe_events:
  "getTableInfo exampleDescribe [''id'', ''ts''] ''events'' =
     Some (Inr \<lparr> Name = ''events'', Status = ''ACTIVE'', ItemCount = 9, SizeBytes = 640,
                 PartitionKey = ''id'', SortKey = ''ts'', SchemaFields = [''id'', ''ts''] \<rparr>)"
  "getTableInfo exampleDescribe [''ts'', ''id''] ''events'' =
     Some (Inr \<lparr> Name = ''events'', Status = ''ACTIVE'', ItemCount = 9, SizeBytes = 640,
                 PartitionKey = ''id'', SortKey = ''ts'', SchemaFields = [''ts'', ''id''] \<rparr>)"
  by (simp_all add: getTableInfo_def exampleDescribe_def schemaNames_def rangeKeys_def)

text \<open>
  When the whole listing comes in one answer, the three tables give two entries: \<open>broken\<close>
  is left out, \<open>events\<close> with its nine items stands before \<open>users\<close> with its five.
\<close>

lemma ListTables_example:
  "ListTables exampleListingWhole exampleDescribe (\<lambda>i. [''id'', ''ts'']) =
     Some (Inr [\<lparr> Name = ''events'', Status = ''ACTIVE'', ItemCount = 9, SizeBytes = 640,
                  PartitionKey = ''id'', SortKey = ''ts'', SchemaFields = [''id'', ''ts''] \<rparr>,
                \<lparr> Name = ''users'', Status = ''ACTIVE'', ItemCount = 5, SizeBytes = 100,
                  PartitionKey = ''id'', SortKey = [], SchemaFields = [''id''] \<rparr>])"
  by (simp add: ListTables_def exampleListingWhole_def exampleDescribe_info exampleDescribe_events
      sortSlice_def)

text \<open>
  C7. The specification has \<^verbatim>\<open>ListTables\<close> enumerate all table names, describe each,
  leave out the tables whose describe call fails and sort the rest by item count,
  descending. The code asks the backend for table names once and never looks at
  \<^verbatim>\<open>LastEvaluatedTableName\<close>, so it enumerates the names of the first answer only. In
  the example backend the listing goes on after \<open>broken\<close>, and the request starting there
  names \<open>events\<close>, a table that can be described; the result, whatever the runtime's
  orders, is the one entry for \<open>users\<close>: \<open>broken\<close> is left out because its describe call
  fails, \<open>events\<close> because it was never asked for.
\<close>

theorem ListTables_reads_one_batch:
  "ListTables exampleListing exampleDescribe orders =
     Some (Inr [\<lparr> Name = ''users'', Status = ''ACTIVE'', ItemCount = 5, SizeBytes = 100,
                  PartitionKey = ''id'', SortKey = [], SchemaFields = [''id''] \<rparr>])
   \<and> exampleListing \<lparr> ExclusiveStartTableName = None, list_Limit = None \<rparr> =
       Inr \<lparr> TableNames = [''users'', ''broken''], LastEvaluatedTableName = Some ''broken'' \<rparr>
   \<and> exampleListing \<lparr> ExclusiveStartTableName = Some ''broken'', list_Limit = None \<rparr> =
       Inr \<lparr> TableNames = [''events''], LastEvaluatedTableName = None \<rparr>
   \<and> succeeded (exampleDescribe ''events'') \<and> noNilFields (exampleDescribe ''events'')"
  by (simp add: ListTables_def exampleListing_def exampleDescribe_info sortSlice_def
      succeeded_def noNilFields_def exampleDescribe_def)



section \<open>Paging through the results\<close>


lemma presses_ctrlN_Suc:
  "presses path client (replicate (Suc m) KeyCtrlN) s =
     (case presses path client (replicate m KeyCtrlN) (ctrlN path client s) of
        None \<Rightarrow> None
      | Some (t, shown) \<Rightarrow> Some (t, result (ctrlN path client s) # shown))"
  by simp



















text \<open>
  The condition on the backend is needed. When an item was written behind the first page
  between the first visit of page 2 and the replay, the replayed Ctrl+N sends the same
  token and displays the page the backend answers now, not the page held in the history.
\<close>

lemma replay_after_backend_change_example:
  "presses ScanPath exampleClient [KeyCtrlN, KeyCtrlB] (openResults ScanPath examplePage1) =
     Some (\<lparr> currentPage = 1,
             pageHistory = [toPageState ScanPath examplePage1, toPageState ScanPath examplePage2],
             result = examplePage1,
             requests = [[(''id'', GoString ''u1'')]] \<rparr>,
           [examplePage2, examplePage1])
   \<and> map_option snd
       (presses ScanPath exampleClientLater [KeyCtrlN]
          \<lparr> currentPage = 1,
            pageHistory = [toPageState ScanPath examplePage1, toPageState ScanPath examplePage2],
            result = examplePage1,
            requests = [[(''id'', GoString ''u1'')]] \<rparr>) =
     Some [\<lparr> Items = [[(''id'', ''u1b'')]],
              RawItems = [[(''id'', GoString ''u1b'')]],
              LastEvaluatedKey = Some [(''id'', GoString ''u1b'')] \<rparr>]"
  by (simp add: openResults_def ctrlN_def ctrlB_def exampleClient_def exampleClientLater_def
      examplePage1_def toPageState_def heldPage_def keptRawItems_def Let_def)

text \<open>
  C4. When the page on display has no continuation token, Ctrl+N does nothing, however
  often it is pressed: the state afterwards is the state before, so the history, the page
  number and the page on display are the same and no request was sent.
\<close>

theorem no_more_pages:
  assumes "LastEvaluatedKey (result s) = None"
  shows "presses path client (replicate n KeyCtrlN) s = Some (s, replicate n (result s))"
proof -
  have "ctrlN path client s = s"
    using assms by (simp add: ctrlN_def)
  then show ?thesis
    by (induction n) simp_all
qed

theorem no_more_pages_witness:
  "LastEvaluatedKey (result (ctrlN QueryPath exampleClient (openResults QueryPath examplePage1))) = None
   \<and> presses QueryPath exampleClient (replicate 3 KeyCtrlN) (ctrlN QueryPath exampleClient (openResults QueryPath examplePage1)) =
       Some (ctrlN QueryPath exampleClient (openResults QueryPath examplePage1),
             replicate 3 (result (ctrlN QueryPath exampleClient (openResults QueryPath examplePage1))))"
proof -
  have h: "LastEvaluatedKey (result (ctrlN QueryPath exampleClient (openResults QueryPath examplePage1))) = None"
    by (simp add: ctrlN_def openResults_def toPageState_def keptRawItems_def exampleClient_def examplePage1_def examplePage2_def
        Let_def)
  from no_more_pages [OF h, where client = exampleClient and n = 3 and path = QueryPath] h show ?thesis
    by blast
qed



section \<open>Preview columns\<close>

lemma detectLoop_take_filter:
  "length acc < 2 \<Longrightarrow>
   detectLoop item pk sk cands acc =
     take 2 (acc @ filter (\<lambda>f. map_of item f \<noteq> None \<and> f \<noteq> pk \<and> f \<noteq> sk) cands)"
proof (induction cands arbitrary: acc)
  case Nil
  then show ?case by simp
next
  case (Cons f cands)
  show ?case
  proof (cases "map_of item f \<noteq> None \<and> f \<noteq> pk \<and> f \<noteq> sk")
    case True
    show ?thesis
    proof (cases "length (acc @ [f]) \<ge> 2")
      case full: True
      with Cons.prems have "length acc = 1" by simp
      with True full show ?thesis by (simp add: Let_def)
    next
      case False
      then have short: "length (acc @ [f]) < 2" by (simp only: not_le)
      then have "acc = []" by simp
      with Cons.IH [OF short] True show ?thesis by (simp add: Let_def)
    qed
  next
    case False
    with Cons.IH [OF Cons.prems] show ?thesis by auto
  qed
qed

lemma detectAdditionalFields_rule:
  "detectAdditionalFields tableInfo (firstItem # rest) =
     take 2 (filter (\<lambda>f. map_of firstItem f \<noteq> None
                          \<and> f \<noteq> PartitionKey tableInfo \<and> f \<noteq> SortKey tableInfo)
       [''title'', ''Title'', ''name'', ''Name'', ''displayName'', ''description'', ''Description'',
        ''email'', ''Email''])"
proof -
  have "detectAdditionalFields tableInfo (firstItem # rest) =
      detectLoop firstItem (PartitionKey tableInfo) (SortKey tableInfo) candidateFields []"
    by (simp add: detectAdditionalFields_def)
  also have "\<dots> = take 2 ([] @ filter (\<lambda>f. map_of firstItem f \<noteq> None
      \<and> f \<noteq> PartitionKey tableInfo \<and> f \<noteq> SortKey tableInfo) candidateFields)"
    by (rule detectLoop_take_filter) simp
  finally show ?thesis
    by (simp only: candidateFields_def append_Nil)
qed

text \<open>
  C8, as the code has it. The preview columns are chosen from the list \<open>title\<close>, \<open>Title\<close>,
  \<open>name\<close>, \<open>Name\<close>, \<open>displayName\<close>, \<open>description\<close>, \<open>Description\<close>, \<open>email\<close>, \<open>Email\<close>, in
  that order: they are the first two names of the list that are attributes of the first
  item of the first page, by exact match, and that are neither the partition-key nor the
  sort-key column; with no item there is none. In particular a first item that has \<open>name\<close>
  and \<open>email\<close> and none of \<open>title\<close>, \<open>Title\<close>, \<open>Name\<close>, \<open>displayName\<close>, \<open>description\<close>,
  \<open>Description\<close>, in a table whose key columns are neither \<open>name\<close> nor \<open>email\<close>, gives
  exactly \<open>name\<close>, \<open>email\<close>.
\<close>

theorem preview_columns:
  assumes "map_of firstItem ''name'' \<noteq> None" and "map_of firstItem ''email'' \<noteq> None"
    and "map_of firstItem ''title'' = None" and "map_of firstItem ''Title'' = None"
    and "map_of firstItem ''Name'' = None" and "map_of firstItem ''displayName'' = None"
    and "map_of firstItem ''description'' = None" and "map_of firstItem ''Description'' = None"
    and "PartitionKey tableInfo \<noteq> ''name''" and "PartitionKey tableInfo \<noteq> ''email''"
    and "SortKey tableInfo \<noteq> ''name''" and "SortKey tableInfo \<noteq> ''email''"
  shows "(\<forall>item more.
            detectAdditionalFields tableInfo (item # more) =
              take 2 (filter (\<lambda>f. map_of item f \<noteq> None
                                   \<and> f \<noteq> PartitionKey tableInfo \<and> f \<noteq> SortKey tableInfo)
                [''title'', ''Title'', ''name'', ''Name'', ''displayName'', ''description'',
                 ''Description'', ''email'', ''Email'']))
         \<and> detectAdditionalFields tableInfo [] = []
         \<and> detectAdditionalFields tableInfo (firstItem # rest) = [''name'', ''email'']"
proof -
  have scenario: "detectAdditionalFields tableInfo (firstItem # rest) = [''name'', ''email'']"
    using assms by (simp add: detectAdditionalFields_rule)
  have none: "detectAdditionalFields tableInfo [] = []"
    by (simp add: detectAdditionalFields_def)
  from detectAdditionalFields_rule none scenario show ?thesis
    by blast
qed

theorem preview_columns_witness:
  "map_of [(''id'', ''u1''), (''email'', ''ann@example.org''), (''name'', ''Ann'')] ''name'' \<noteq> None
   \<and> map_of [(''id'', ''u1''), (''email'', ''ann@example.org''), (''name'', ''Ann'')] ''email'' \<noteq> None
   \<and> map_of [(''id'', ''u1''), (''email'', ''ann@example.org''), (''name'', ''Ann'')] ''title'' = None
   \<and> map_of [(''id'', ''u1''), (''email'', ''ann@example.org''), (''name'', ''Ann'')] ''Title'' = None
   \<and> map_of [(''id'', ''u1''), (''email'', ''ann@example.org''), (''name'', ''Ann'')] ''Name'' = None
   \<and> map_of [(''id'', ''u1''), (''email'', ''ann@example.org''), (''name'', ''Ann'')] ''displayName'' = None
   \<and> map_of [(''id'', ''u1''), (''email'', ''ann@example.org''), (''name'', ''Ann'')] ''description'' = None
   \<and> map_of [(''id'', ''u1''), (''email'', ''ann@example.org''), (''name'', ''Ann'')] ''Description'' = None
   \<and> PartitionKey exampleTable \<noteq> ''name'' \<and> PartitionKey exampleTable \<noteq> ''email''
   \<and> SortKey exampleTable \<noteq> ''name'' \<and> SortKey exampleTable \<noteq> ''email''
   \<and> detectAdditionalFields exampleTable
         [[(''id'', ''u1''), (''email'', ''ann@example.org''), (''name'', ''Ann'')]] =
       [''name'', ''email'']"
proof -
  let ?item = "[(''id'', ''u1''), (''email'', ''ann@example.org''), (''name'', ''Ann'')]"
  have h: "map_of ?item ''name'' \<noteq> None" "map_of ?item ''email'' \<noteq> None"
    "map_of ?item ''title'' = None" "map_of ?item ''Title'' = None"
    "map_of ?item ''Name'' = None" "map_of ?item ''displayName'' = None"
    "map_of ?item ''description'' = None" "map_of ?item ''Description'' = None"
    "PartitionKey exampleTable \<noteq> ''name''" "PartitionKey exampleTable \<noteq> ''email''"
    "SortKey exampleTable \<noteq> ''name''" "SortKey exampleTable \<noteq> ''email''"
    by (simp_all add: exampleTable_def)
  from preview_columns [OF h, of "[]"] h show ?thesis
    by blast
qed

text \<open>
  C8 as the specification states it fails: the list the code scans has the capitalised names too.
  For a table with the key \<open>id\<close>, a first item with \<open>Title\<close>, \<open>name\<close> and \<open>email\<close> (and no
  \<open>title\<close> or \<open>description\<close>) gets the columns \<open>Title\<close>, \<open>name\<close>: \<open>Title\<close> is not in the
  specification's list, and the choice is not \<open>name\<close>, \<open>email\<close>.
\<close>

theorem preview_columns_counterexample:
  "detectAdditionalFields
     \<lparr> Name = ''users'', Status = ''ACTIVE'', ItemCount = 1, SizeBytes = 100,
       PartitionKey = ''id'', SortKey = [], SchemaFields = [''id''] \<rparr>
     [[(''id'', ''u1''), (''Title'', ''Dr''), (''name'', ''Ann''), (''email'', ''ann@example.org'')]]
   = [''Title'', ''name'']"
  by (simp add: detectAdditionalFields_def candidateFields_def)

section \<open>Export to a file\<close>

lemma exportFileName_eq:
  "exportFileName FormatFloat tableInfo rawItem =
     map (\<lambda>c. if pathHostile c then CHR ''_'' else c)
       (fmtV FormatFloat (index rawItem (PartitionKey tableInfo))
        @ (if SortKey tableInfo \<noteq> []
           then ''_'' @ fmtV FormatFloat (index rawItem (SortKey tableInfo)) else []))
     @ ''.json''"
  by (simp add: exportFileName_def ReplaceAll_def pathHostile_def Let_def comp_def)

lemma exportFileName_clean:
  "list_all (\<lambda>c. \<not> pathHostile c) (exportFileName FormatFloat tableInfo rawItem)"
  unfolding exportFileName_eq by (auto simp: list_all_iff pathHostile_def split: if_splits)

lemma exampleItem_raw:
  "RawItems (convertOutput ParseFloat \<lparr> out_Items = [exampleItem], out_LastEvaluatedKey = None \<rparr>) =
     [[(''id'', GoString ''u1''), (''ts'', GoString ''2024-01-01''), (''title'', GoString ''Hello''),
       (''tags'', GoSlice [GoString ''a'', GoString ''b''])]]"
  by (simp add: convertOutput_def exampleItem_def)

lemma exampleItem_fileName:
  "exportFileName FormatFloat exampleTable
     [(''id'', GoString ''u1''), (''ts'', GoString ''2024-01-01''), (''title'', GoString ''Hello''),
      (''tags'', GoSlice [GoString ''a'', GoString ''b''])] = ''u1_2024-01-01.json''"
  by (simp add: exportFileName_def exampleTable_def index_def ReplaceAll_def)

lemma hostile_fileName:
  "exportFileName FormatFloat (exampleTable\<lparr> SortKey := [] \<rparr>) [(''id'', GoString ''a/b c:d'')] =
     ''a_b_c_d.json''"
  by (simp add: exportFileName_def exampleTable_def index_def ReplaceAll_def)

text \<open>
  C9. When marshalling and writing succeed, the export hands to \<^verbatim>\<open>os.WriteFile\<close> what
  \<^verbatim>\<open>json.MarshalIndent\<close> made of the whole raw item with an indent of four spaces, under
  the file name made of the \<^verbatim>\<open>%v\<close> text of the item's partition-key value, followed by
  \<open>_\<close> and the text of the sort-key value when the table has a sort key, with every \<open>/\<close>,
  space and \<open>:\<close> replaced by \<open>_\<close>, and \<open>.json\<close> at the end. For the item of the scenario the
  raw item has the four fields, \<open>tags\<close> being a slice of the two strings, and the file
  name is \<open>u1_2024-01-01.json\<close>.
\<close>

theorem export_item:
  assumes "MarshalIndent rawItem [] ''    '' = Inr jsonBytes"
    and "WriteFile (exportFileName FormatFloat tableInfo rawItem) jsonBytes = None"
  shows "saveItemAsJSON FormatFloat MarshalIndent WriteFile tableInfo rawItem =
           \<lparr> writeCall = Some (exportFileName FormatFloat tableInfo rawItem, jsonBytes),
             modalPage = (''savesuccess'',
                          ''Saved to: '' @ exportFileName FormatFloat tableInfo rawItem) \<rparr>
         \<and> exportFileName FormatFloat tableInfo rawItem =
             map (\<lambda>c. if c = CHR ''/'' \<or> c = CHR '' '' \<or> c = CHR '':'' then CHR ''_'' else c)
               (fmtV FormatFloat (index rawItem (PartitionKey tableInfo))
                @ (if SortKey tableInfo \<noteq> []
                   then ''_'' @ fmtV FormatFloat (index rawItem (SortKey tableInfo)) else []))
             @ ''.json''
         \<and> RawItems (convertOutput ParseFloat
                        \<lparr> out_Items = [exampleItem], out_LastEvaluatedKey = None \<rparr>) =
             [[(''id'', GoString ''u1''), (''ts'', GoString ''2024-01-01''),
               (''title'', GoString ''Hello''),
               (''tags'', GoSlice [GoString ''a'', GoString ''b''])]]
         \<and> exportFileName FormatFloat exampleTable
               [(''id'', GoString ''u1''), (''ts'', GoString ''2024-01-01''),
                (''title'', GoString ''Hello''),
                (''tags'', GoSlice [GoString ''a'', GoString ''b''])] = ''u1_2024-01-01.json''"
proof -
  have save: "saveItemAsJSON FormatFloat MarshalIndent WriteFile tableInfo rawItem =
           \<lparr> writeCall = Some (exportFileName FormatFloat tableInfo rawItem, jsonBytes),
             modalPage = (''savesuccess'',
                          ''Saved to: '' @ exportFileName FormatFloat tableInfo rawItem) \<rparr>"
    using assms by (simp add: saveItemAsJSON_def Let_def)
  have name: "exportFileName FormatFloat tableInfo rawItem =
             map (\<lambda>c. if c = CHR ''/'' \<or> c = CHR '' '' \<or> c = CHR '':'' then CHR ''_'' else c)
               (fmtV FormatFloat (index rawItem (PartitionKey tableInfo))
                @ (if SortKey tableInfo \<noteq> []
                   then ''_'' @ fmtV FormatFloat (index rawItem (SortKey tableInfo)) else []))
             @ ''.json''"
    by (simp only: exportFileName_eq pathHostile_def)
  from save name exampleItem_raw exampleItem_fileName show ?thesis
    by (intro conjI)
qed

theorem export_item_witness:
  "(\<lambda>v prefix indent. Inr ''{}'')
       [(''id'', GoString ''u1''), (''ts'', GoString ''2024-01-01'')] [] ''    '' =
     (Inr ''{}'' :: error + string)
   \<and> (\<lambda>name data. None)
       (exportFileName (\<lambda>f :: real. ''0'') exampleTable
          [(''id'', GoString ''u1''), (''ts'', GoString ''2024-01-01'')]) ''{}'' =
     (None :: error option)
   \<and> saveItemAsJSON (\<lambda>f :: real. ''0'') (\<lambda>v prefix indent. Inr ''{}'') (\<lambda>name data. None)
       exampleTable [(''id'', GoString ''u1''), (''ts'', GoString ''2024-01-01'')] =
     \<lparr> writeCall = Some (''u1_2024-01-01.json'', ''{}''),
       modalPage = (''savesuccess'', ''Saved to: u1_2024-01-01.json'') \<rparr>"
proof -
  let ?raw = "[(''id'', GoString ''u1''), (''ts'', GoString ''2024-01-01'')] :: real RawItem"
  let ?marshal = "\<lambda>(v :: real RawItem) (prefix :: string) (indent :: string).
                    (Inr ''{}'' :: error + string)"
  let ?sink = "\<lambda>(name :: string) (data :: string). (None :: error option)"
  have h1: "?marshal ?raw [] ''    '' = Inr ''{}''" by simp
  have h2: "?sink (exportFileName (\<lambda>f :: real. ''0'') exampleTable ?raw) ''{}'' = None" by simp
  have name: "exportFileName (\<lambda>f :: real. ''0'') exampleTable ?raw = ''u1_2024-01-01.json''"
    by (simp add: exportFileName_def exampleTable_def index_def ReplaceAll_def)
  from export_item [of ?marshal ?raw "''{}''" ?sink "\<lambda>f :: real. ''0''" exampleTable,
      OF h1 h2, THEN conjunct1]
  show ?thesis
    by (simp add: name)
qed

section \<open>The item view deletes the schema keys from the shared item\<close>

lemma map_of_deleteKey: "map_of (deleteKey sf item) k = (if k = sf then None else map_of item k)"
  by (induction item) (auto simp: deleteKey_def)

lemma schemaLoop_found:
  "map_of item sf = Some v \<Longrightarrow>
   schemaLoop (sf # rest) item =
     ((sf, v) # fst (schemaLoop rest (deleteKey sf item)), snd (schemaLoop rest (deleteKey sf item)))"
  by (simp add: case_prod_unfold)

lemma schemaLoop_shows:
  "sf \<in> set sfs \<Longrightarrow> map_of item sf = Some v \<Longrightarrow> (sf, v) \<in> set (fst (schemaLoop sfs item))"
proof (induction sfs arbitrary: item)
  case Nil
  then show ?case by simp
next
  case (Cons a sfs)
  show ?case
  proof (cases "a = sf")
    case True
    with Cons.prems show ?thesis by (simp add: schemaLoop_found del: schemaLoop.simps)
  next
    case False
    with Cons.prems have mem: "sf \<in> set sfs" by simp
    show ?thesis
    proof (cases "map_of item a")
      case None
      with Cons.IH [OF mem Cons.prems(2)] show ?thesis by simp
    next
      case (Some w)
      have "map_of (deleteKey a item) sf = Some v"
        using False Cons.prems(2) by (simp add: map_of_deleteKey)
      from Cons.IH [OF mem this] Some show ?thesis
        by (simp add: schemaLoop_found del: schemaLoop.simps)
    qed
  qed
qed

lemma filter_absent:
  "map_of item a = None \<Longrightarrow>
   filter (\<lambda>(k, v). k \<noteq> a \<and> P k) item = filter (\<lambda>(k, v). P k) item"
  by (induction item) (auto split: if_splits)

lemma schemaLoop_remaining:
  "snd (schemaLoop sfs item) = filter (\<lambda>(k, v). k \<notin> set sfs) item"
proof (induction sfs arbitrary: item)
  case Nil
  then show ?case by simp
next
  case (Cons a sfs)
  show ?case
  proof (cases "map_of item a")
    case None
    then show ?thesis using Cons.IH [of item] filter_absent [of item a "\<lambda>k. k \<notin> set sfs"]
      by simp
  next
    case (Some w)
    have "filter (\<lambda>(k, v). k \<notin> set sfs) (deleteKey a item) =
        filter (\<lambda>(k, v). k \<noteq> a \<and> k \<notin> set sfs) item"
      by (induction item) (auto simp: deleteKey_def)
    with Some Cons.IH [of "deleteKey a item"] show ?thesis
      by (simp add: schemaLoop_found del: schemaLoop.simps)
  qed
qed

lemma schemaLoop_nothing:
  "list_all (\<lambda>sf. map_of item sf = None) sfs \<Longrightarrow> schemaLoop sfs item = ([], item)"
  by (induction sfs) simp_all

lemma map_of_filter_out:
  "k \<in> S \<Longrightarrow> map_of (filter (\<lambda>(k, v). k \<notin> S) item) k = None"
  by (induction item) auto

lemma schemaLoop_second:
  "schemaLoop sfs (snd (schemaLoop sfs item)) = ([], snd (schemaLoop sfs item))"
  by (rule schemaLoop_nothing) (simp add: schemaLoop_remaining list_all_iff map_of_filter_out)

lemma keyEnter_in_range:
  assumes "0 < row" "row \<le> length (Items res)" "row \<le> length (RawItems res)"
    and "Items res ! (row - 1) < length store"
  shows "keyEnter tableInfo row store res =
     Some (Some \<lparr> keyRows = fst (schemaLoop (SchemaFields tableInfo) (store ! (Items res ! (row - 1)))),
                   otherRows = filter (\<lambda>(k, v). k \<notin> set (SchemaFields tableInfo))
                                 (store ! (Items res ! (row - 1))) \<rparr>,
           store[Items res ! (row - 1) :=
                   filter (\<lambda>(k, v). k \<notin> set (SchemaFields tableInfo))
                     (store ! (Items res ! (row - 1)))])"
  using assms
  by (simp add: keyEnter_def Let_def case_prod_unfold schemaLoop_remaining)

text \<open>
  When the page on display is the history's own: at the start, after Ctrl+B went back a
  page, and after Ctrl+N fetched a page that was appended to the history.
\<close>

lemma sharesHistory_openResults: "sharesHistory (openResults path r)"
  by (simp add: sharesHistory_def openResults_def toPageState_def keptRawItems_def)

lemma sharesHistory_ctrlB:
  "ctrlB s = Some s' \<Longrightarrow> currentPage s > 1 \<Longrightarrow> sharesHistory s'"
  by (auto simp: sharesHistory_def ctrlB_def heldPage_def Let_def split: if_splits)

lemma sharesHistory_ctrlN_new_page:
  "currentPage s = length (pageHistory s) \<Longrightarrow>
   currentPage (ctrlN path client s) = Suc (currentPage s) \<Longrightarrow> sharesHistory (ctrlN path client s)"
  by (auto simp: sharesHistory_def ctrlN_def toPageState_def Let_def
      split: option.splits sum.splits)

text \<open>
  On the query path a page taken from the history has no raw items, so Enter on any of its
  rows panics at \<^verbatim>\<open>result.RawItems[row-1]\<close> before a row of the item view is made.
\<close>

lemma queryView_openResults: "queryView (openResults QueryPath r)"
  by (simp add: queryView_def openResults_def toPageState_def keptRawItems_def)

lemma queryView_ctrlN: "queryView s \<Longrightarrow> queryView (ctrlN QueryPath client s)"
  by (auto simp: queryView_def ctrlN_def toPageState_def keptRawItems_def Let_def
      split: option.splits sum.splits)

lemma queryView_ctrlB: "queryView s \<Longrightarrow> ctrlB s = Some s' \<Longrightarrow> queryView s'"
  by (auto simp: queryView_def ctrlB_def Let_def split: if_splits)

lemma queryView_presses:
  "queryView s \<Longrightarrow> presses QueryPath client es s = Some (t, shown) \<Longrightarrow> queryView t"
proof (induction es arbitrary: s shown)
  case Nil
  then show ?case by simp
next
  case (Cons e es)
  from Cons.prems(2) obtain s' shown' where
    step: "inputCapture QueryPath client e s = Some s'"
    and rest: "presses QueryPath client es s' = Some (t, shown')"
    by (auto split: option.splits)
  have "queryView s'"
    using step Cons.prems(1) by (cases e) (auto intro: queryView_ctrlN queryView_ctrlB)
  from Cons.IH [OF this rest] show ?case .
qed

lemma query_path_enter_after_previous_panics:
  assumes reach: "presses QueryPath client es (openResults QueryPath r0) = Some (s, shown)"
    and page: "currentPage s > 1"
    and row: "0 < row" "row \<le> length (items (pageHistory s ! (currentPage s - 2)))"
  shows "\<exists>s'. ctrlB s = Some s'
           \<and> result s' = heldPage (pageHistory s ! (currentPage s - 2))
           \<and> RawItems (result s') = []
           \<and> keyEnter tableInfo row store (result s') = None"
proof -
  have inv: "queryView s"
    using queryView_presses [OF queryView_openResults reach] .
  let ?s' = "s\<lparr> currentPage := currentPage s - 1,
                 result := heldPage (pageHistory s ! (currentPage s - 2)) \<rparr>"
  have idx: "currentPage s - 2 < length (pageHistory s)"
    using inv page unfolding queryView_def by linarith
  have "currentPage s - 1 - 1 = currentPage s - 2" by simp
  then have step: "ctrlB s = Some ?s'"
    using page idx by (simp add: ctrlB_def Let_def)
  have "rawItems (pageHistory s ! (currentPage s - 2)) = []"
    using inv idx by (simp add: queryView_def list_all_length)
  then have raw: "RawItems (result ?s') = []"
    by (simp add: heldPage_def)
  have its: "Items (result ?s') = items (pageHistory s ! (currentPage s - 2))"
    by (simp add: heldPage_def)
  have "keyEnter tableInfo row store (result ?s') = None"
    using row raw its by (simp add: keyEnter_def)
  with step raw show ?thesis by simp
qed

text \<open>
  C10, as the code has it. Enter on a row whose item has a schema-key attribute shows that
  attribute among the key rows and leaves the item in the store without any of the schema
  keys. Enter on the same row again shows no key row at all, only the remaining
  attributes. When the page on display is the history's own, the item the history holds
  for that row is that same item, so it has lost its schema keys too. (The hypotheses ask
  for a row of the page that has its raw item.)
\<close>

theorem detail_view_deletes_schema_keys:
  fixes s :: "(nat, 'r, 'k) resultsView"
  assumes row: "0 < row" "row \<le> length (Items (result s))" "row \<le> length (RawItems (result s))"
    and ref: "Items (result s) ! (row - 1) < length store"
    and key: "sf \<in> set (SchemaFields tableInfo)"
      "map_of (store ! (Items (result s) ! (row - 1))) sf = Some v"
  shows "\<exists>t1 store1 t2.
           keyEnter tableInfo row store (result s) = Some (Some t1, store1)
         \<and> (sf, v) \<in> set (keyRows t1)
         \<and> store1 = store[Items (result s) ! (row - 1) :=
               filter (\<lambda>(k, v). k \<notin> set (SchemaFields tableInfo))
                 (store ! (Items (result s) ! (row - 1)))]
         \<and> keyEnter tableInfo row store1 (result s) = Some (Some t2, store1)
         \<and> keyRows t2 = []
         \<and> otherRows t2 =
               filter (\<lambda>(k, v). k \<notin> set (SchemaFields tableInfo))
                 (store ! (Items (result s) ! (row - 1)))
         \<and> (sharesHistory s \<longrightarrow>
               historyItems (s, store1) ! (currentPage s - 1) ! (row - 1) =
                 filter (\<lambda>(k, v). k \<notin> set (SchemaFields tableInfo))
                   (store ! (Items (result s) ! (row - 1))))"
proof -
  let ?a = "Items (result s) ! (row - 1)"
  let ?item = "store ! ?a"
  let ?sfs = "SchemaFields tableInfo"
  let ?rem = "filter (\<lambda>(k, v). k \<notin> set ?sfs) ?item"
  let ?t1 = "\<lparr> keyRows = fst (schemaLoop ?sfs ?item), otherRows = ?rem \<rparr>"
  let ?store1 = "store[?a := ?rem]"
  let ?t2 = "\<lparr> keyRows = [], otherRows = ?rem \<rparr>"
  have first: "keyEnter tableInfo row store (result s) = Some (Some ?t1, ?store1)"
    using row ref by (rule keyEnter_in_range)
  have shown: "(sf, v) \<in> set (keyRows ?t1)"
    using schemaLoop_shows [OF key] by simp
  have at1: "?store1 ! ?a = ?rem" and len1: "?a < length ?store1"
    using ref by simp_all
  have loop2: "schemaLoop ?sfs ?rem = ([], ?rem)"
    using schemaLoop_second [of ?sfs ?item] by (simp add: schemaLoop_remaining)
  have same: "?store1[?a := ?rem] = ?store1"
    by simp
  have "keyEnter tableInfo row ?store1 (result s) =
      Some (Some \<lparr> keyRows = fst (schemaLoop ?sfs (?store1 ! ?a)),
                    otherRows = filter (\<lambda>(k, v). k \<notin> set ?sfs) (?store1 ! ?a) \<rparr>,
            ?store1[?a := filter (\<lambda>(k, v). k \<notin> set ?sfs) (?store1 ! ?a)])"
    using row len1 by (rule keyEnter_in_range)
  also have "?store1 ! ?a = ?rem" by (rule at1)
  also have "filter (\<lambda>(k, v). k \<notin> set ?sfs) ?rem = ?rem"
    by (simp add: case_prod_unfold)
  also have "?store1[?a := ?rem] = ?store1" by (rule same)
  also have "fst (schemaLoop ?sfs ?rem) = []" by (simp only: loop2 fst_conv)
  finally have second: "keyEnter tableInfo row ?store1 (result s) = Some (Some ?t2, ?store1)" .
  have hist: "historyItems (s, ?store1) ! (currentPage s - 1) ! (row - 1) = ?rem"
    if "sharesHistory s"
  proof -
    from that have page: "currentPage s - 1 < length (pageHistory s)"
      and eq: "items (pageHistory s ! (currentPage s - 1)) = Items (result s)"
      by (simp_all add: sharesHistory_def)
    have inrow: "row - 1 < length (Items (result s))" using row by simp
    have "historyItems (s, ?store1) ! (currentPage s - 1) =
        map (\<lambda>a. ?store1 ! a) (items (pageHistory s ! (currentPage s - 1)))"
      using page by (simp add: historyItems_def)
    then have "historyItems (s, ?store1) ! (currentPage s - 1) =
        map (\<lambda>a. ?store1 ! a) (Items (result s))"
      by (simp only: eq)
    then show ?thesis
      using inrow at1 by simp
  qed
  show ?thesis
    apply (rule exI [of _ ?t1])
    apply (rule exI [of _ ?store1])
    apply (rule exI [of _ ?t2])
    using first shown second hist by simp
qed

theorem detail_view_deletes_schema_keys_witness:
  "0 < (1::nat)
   \<and> 1 \<le> length (Items (result (fst (storedOpenResults QueryPath examplePage1))))
   \<and> 1 \<le> length (RawItems (result (fst (storedOpenResults QueryPath examplePage1))))
   \<and> Items (result (fst (storedOpenResults QueryPath examplePage1))) ! (1 - 1)
       < length (snd (storedOpenResults QueryPath examplePage1))
   \<and> ''id'' \<in> set (SchemaFields exampleTable)
   \<and> map_of (snd (storedOpenResults QueryPath examplePage1)
               ! (Items (result (fst (storedOpenResults QueryPath examplePage1))) ! (1 - 1))) ''id'' =
       Some ''u1''
   \<and> sharesHistory (fst (storedOpenResults QueryPath examplePage1))
   \<and> (\<exists>t1 store1 t2.
         keyEnter exampleTable 1 (snd (storedOpenResults QueryPath examplePage1))
           (result (fst (storedOpenResults QueryPath examplePage1))) = Some (Some t1, store1)
       \<and> (''id'', ''u1'') \<in> set (keyRows t1)
       \<and> keyEnter exampleTable 1 store1 (result (fst (storedOpenResults QueryPath examplePage1))) =
           Some (Some t2, store1)
       \<and> keyRows t2 = []
       \<and> otherRows t2 = []
       \<and> historyItems (fst (storedOpenResults QueryPath examplePage1), store1)
             ! (currentPage (fst (storedOpenResults QueryPath examplePage1)) - 1) ! (1 - 1) = [])"
proof -
  let ?S = "fst (storedOpenResults QueryPath examplePage1)"
  let ?ST = "snd (storedOpenResults QueryPath examplePage1)"
  have h: "0 < (1::nat)" "1 \<le> length (Items (result ?S))" "1 \<le> length (RawItems (result ?S))"
    "Items (result ?S) ! (1 - 1) < length ?ST"
    "''id'' \<in> set (SchemaFields exampleTable)"
    "map_of (?ST ! (Items (result ?S) ! (1 - 1))) ''id'' = Some ''u1''"
    by (simp_all add: storedOpenResults_def openResults_def toPageState_def keptRawItems_def examplePage1_def exampleTable_def)
  have sh: "sharesHistory ?S"
    by (simp add: storedOpenResults_def sharesHistory_openResults)
  have rem: "filter (\<lambda>(k, v). k \<notin> set (SchemaFields exampleTable))
      (?ST ! (Items (result ?S) ! (1 - 1))) = []"
    by (simp add: storedOpenResults_def openResults_def toPageState_def keptRawItems_def examplePage1_def exampleTable_def)
  from detail_view_deletes_schema_keys [OF h] obtain t1 store1 t2 where
    shown: "keyEnter exampleTable 1 ?ST (result ?S) = Some (Some t1, store1)"
      "(''id'', ''u1'') \<in> set (keyRows t1)"
      "keyEnter exampleTable 1 store1 (result ?S) = Some (Some t2, store1)"
      "keyRows t2 = []"
    and rest: "otherRows t2 = filter (\<lambda>(k, v). k \<notin> set (SchemaFields exampleTable))
        (?ST ! (Items (result ?S) ! (1 - 1)))"
    and held: "sharesHistory ?S \<longrightarrow>
        historyItems (?S, store1) ! (currentPage ?S - 1) ! (1 - 1) =
          filter (\<lambda>(k, v). k \<notin> set (SchemaFields exampleTable))
            (?ST ! (Items (result ?S) ! (1 - 1)))"
    by blast
  from rest rem have rest': "otherRows t2 = []" by simp
  from held sh rem have held': "historyItems (?S, store1) ! (currentPage ?S - 1) ! (1 - 1) = []"
    by simp
  from shown rest' held' have "\<exists>t1 store1 t2.
         keyEnter exampleTable 1 ?ST (result ?S) = Some (Some t1, store1)
       \<and> (''id'', ''u1'') \<in> set (keyRows t1)
       \<and> keyEnter exampleTable 1 store1 (result ?S) = Some (Some t2, store1)
       \<and> keyRows t2 = []
       \<and> otherRows t2 = []
       \<and> historyItems (?S, store1) ! (currentPage ?S - 1) ! (1 - 1) = []"
    by blast
  with h sh show ?thesis
    by (intro conjI)
qed

text \<open>
  C10 as the specification states it fails for a page that Ctrl+N fetched again: its items are
  new maps, not the history's. In the two-page view, going to page 2, back, to page 2
  again and opening the first row deletes \<open>id\<close> from the item on display, while the item
  the history holds for page 2 still has it.
\<close>

theorem detail_view_counterexample:
  "map_option historyItems
     (storedPresses QueryPath exampleClient exampleTable
        [Press KeyCtrlN, Press KeyCtrlB, Press KeyCtrlN, Enter 1]
        (storedOpenResults QueryPath examplePage1)) =
     Some [[[(''id'', ''u1'')]], [[(''id'', ''u2'')]]]
   \<and> map_option shownItems
     (storedPresses QueryPath exampleClient exampleTable
        [Press KeyCtrlN, Press KeyCtrlB, Press KeyCtrlN, Enter 1]
        (storedOpenResults QueryPath examplePage1)) =
     Some [[]]"
  by (simp add: storedOpenResults_def openResults_def toPageState_def keptRawItems_def ctrlN_def ctrlB_def fetchInto_def
      storeAfterFetch_def exampleClient_def examplePage1_def examplePage2_def toPageState_def
      heldPage_def keyEnter_def exampleTable_def deleteKey_def historyItems_def shownItems_def
      Let_def)

text \<open>
  Without the detour the page on display is the history's own, and the history loses the
  key with it.
\<close>

lemma detail_view_new_page_example:
  "map_option historyItems
     (storedPresses QueryPath exampleClient exampleTable [Press KeyCtrlN, Enter 1]
        (storedOpenResults QueryPath examplePage1)) =
     Some [[[(''id'', ''u1'')]], [[]]]"
  by (simp add: storedOpenResults_def openResults_def toPageState_def keptRawItems_def ctrlN_def fetchInto_def
      storeAfterFetch_def exampleClient_def examplePage1_def examplePage2_def toPageState_def
      keyEnter_def exampleTable_def deleteKey_def historyItems_def Let_def)

text \<open>
  A page restored by Ctrl+B: on the scan path its items are the history's and opening the
  first row of page 1 deletes the key there; on the query path the same keys end in the
  panic.
\<close>

lemma query_path_restored_page_example:
  "storedPresses QueryPath exampleClient exampleTable [Press KeyCtrlN, Press KeyCtrlB, Enter 1]
     (storedOpenResults QueryPath examplePage1) = None"
  by (simp add: storedOpenResults_def openResults_def toPageState_def keptRawItems_def ctrlN_def
      ctrlB_def fetchInto_def storeAfterFetch_def exampleClient_def examplePage1_def
      examplePage2_def heldPage_def keyEnter_def Let_def)

lemma scan_path_restored_page_example:
  "map_option historyItems
     (storedPresses ScanPath exampleClient exampleTable [Press KeyCtrlN, Press KeyCtrlB, Enter 1]
        (storedOpenResults ScanPath examplePage1)) =
     Some [[[]], [[(''id'', ''u2'')]]]"
  by (simp add: storedOpenResults_def openResults_def toPageState_def keptRawItems_def ctrlN_def
      ctrlB_def fetchInto_def storeAfterFetch_def exampleClient_def examplePage1_def
      examplePage2_def heldPage_def keyEnter_def exampleTable_def deleteKey_def historyItems_def
      Let_def)

end
